theory Spec2Isabelle
  imports Main "HOL-Library.Multiset"
begin

text \<open>
  The credit ledger and the job mutators of a web application that keeps its data in a
  hosted relational store: the server module that queries the store
  (\<open>src/unnamed/part_002\<close>, and its other copy \<open>src/unnamed/part_001\<close>) and the OAuth
  callback route (\<open>src/app/auth/callback/route.ts\<close>). The store and its client library
  are not part of the sources: the store is a record of tables, and what it answers to
  each request is chosen by the environment.
\<close>

section \<open>Values of the host language\<close>

text \<open>
  The server module computes with JavaScript numbers, which are IEEE doubles. A number
  of the model is an integer, a finite double that is no integer (\<open>Frac m k\<close> is
  \<open>m / 2^k\<close> with \<open>m\<close> odd and \<open>k > 0\<close>), an infinity or \<open>NaN\<close>. Zero has no sign here:
  \<open>-0\<close> is \<open>0\<close>, as it is for \<open>===\<close>.
\<close>

datatype number = Num int | Frac int nat | Infinity | NegInfinity | NaN

fun num_neg :: "number \<Rightarrow> number" where
  "num_neg (Num a) = Num (- a)"
| "num_neg (Frac m k) = Frac (- m) k"
| "num_neg Infinity = NegInfinity"
| "num_neg NegInfinity = Infinity"
| "num_neg NaN = NaN"

text \<open>
  Rounding the rational \<open>n / d\<close> (with \<open>d > 0\<close>) to the nearest double, ties to the even
  significand: 53 bits of significand, exponents down to \<open>2^-1074\<close>, and infinity from
  \<open>2^1024\<close> on. \<open>bits n\<close> is the length of \<open>n\<close> in binary.
\<close>

function bits :: "int \<Rightarrow> nat" where
  "bits n = (if n \<le> 0 then 0 else Suc (bits (n div 2)))"
  by pat_completeness auto
termination
  by (relation "measure nat") auto

declare bits.simps [simp del]

primrec dyadic :: "int \<Rightarrow> nat \<Rightarrow> number" where
  "dyadic m 0 = Num m"
| "dyadic m (Suc k) = (if even m then dyadic (m div 2) k else Frac m (Suc k))"

definition round_half_even :: "int \<Rightarrow> int \<Rightarrow> int" where
  "round_half_even n d =
     (let f = n div d; r = n mod d
      in if 2 * r < d then f else if d < 2 * r then f + 1 else if even f then f else f + 1)"

definition floor_log2 :: "int \<Rightarrow> int \<Rightarrow> int" where
  "floor_log2 n d =
     (let k = int (bits n) - int (bits d)
      in if 0 \<le> k then (if d * 2 ^ nat k \<le> n then k else k - 1)
         else (if d \<le> n * 2 ^ nat (- k) then k else k - 1))"

definition round_magnitude :: "int \<Rightarrow> int \<Rightarrow> number" where
  "round_magnitude n d =
     (let p = max (floor_log2 n d - 52) (- 1074)
      in if 0 \<le> p then
           (let v = round_half_even n (d * 2 ^ nat p) * 2 ^ nat p
            in if 2 ^ 1024 \<le> v then Infinity else Num v)
         else dyadic (round_half_even (n * 2 ^ nat (- p)) d) (nat (- p)))"

definition round_double :: "int \<Rightarrow> int \<Rightarrow> number" where
  "round_double n d =
     (if n = 0 then Num 0
      else if 0 < n then round_magnitude n d
      else num_neg (round_magnitude (- n) d))"

text \<open>
  The operator \<open>a - b\<close>. A difference of integers is taken exactly (as the doubles'
  is while it stays within \<open>2^53\<close>); a difference with a fraction is rounded to the
  nearest double.
\<close>

fun num_sub :: "number \<Rightarrow> number \<Rightarrow> number" where
  "num_sub NaN _ = NaN"
| "num_sub _ NaN = NaN"
| "num_sub Infinity Infinity = NaN"
| "num_sub NegInfinity NegInfinity = NaN"
| "num_sub Infinity _ = Infinity"
| "num_sub NegInfinity _ = NegInfinity"
| "num_sub _ Infinity = NegInfinity"
| "num_sub _ NegInfinity = Infinity"
| "num_sub (Num a) (Num b) = Num (a - b)"
| "num_sub (Num a) (Frac m k) = round_double (a * 2 ^ k - m) (2 ^ k)"
| "num_sub (Frac m k) (Num b) = round_double (m - b * 2 ^ k) (2 ^ k)"
| "num_sub (Frac m k) (Frac n l) = round_double (m * 2 ^ l - n * 2 ^ k) (2 ^ (k + l))"

text \<open>
  The \<open>metadata\<close> column of a product has the type \<open>Json | null\<close>: any JSON value.
  An object is the list of its members; \<open>map_of\<close> reads a member. A JSON number is a
  whole number here, as credits are whole quantities.
\<close>

datatype json =
    JNull
  | JBool bool
  | JNumber int
  | JString string
  | JArray "json list"
  | JObject "(string \<times> json) list"

text \<open>JavaScript truthiness, \<open>typeof v === 'object'\<close> and \<open>'k' in v\<close> on JSON values.\<close>

fun truthy :: "json \<Rightarrow> bool" where
  "truthy JNull = False"
| "truthy (JBool b) = b"
| "truthy (JNumber n) = (n \<noteq> 0)"
| "truthy (JString s) = (s \<noteq> [])"
| "truthy (JArray _) = True"
| "truthy (JObject _) = True"

fun typeof_object :: "json \<Rightarrow> bool" where
  "typeof_object JNull = True"
| "typeof_object (JArray _) = True"
| "typeof_object (JObject _) = True"
| "typeof_object _ = False"

fun has_member :: "string \<Rightarrow> json \<Rightarrow> bool" where
  "has_member k (JObject ms) = (map_of ms k \<noteq> None)"
| "has_member k _ = False"

text \<open>
  Property access \<open>v.k\<close> on a JSON value: \<open>None\<close> is \<open>undefined\<close> (a primitive, an
  array or an object without the member).
\<close>

fun property :: "string \<Rightarrow> json \<Rightarrow> json option" where
  "property k (JObject ms) = map_of ms k"
| "property k _ = None"

subsection \<open>The conversion \<open>Number(v)\<close>\<close>

text \<open>
  \<open>StringToNumber\<close>, the conversion of a string by \<open>Number\<close>. A string is the list of
  its UTF-8 bytes. White space and line terminators are trimmed at both ends; the empty
  string is \<open>0\<close>; then the string is a numeric literal or the result is \<open>NaN\<close>. A literal
  is a binary, octal or hexadecimal integer with its prefix and no sign, or a decimal
  literal with an optional sign: \<open>Infinity\<close>, or digits with an optional fraction and an
  optional exponent. The value of the literal is rounded to the nearest double.
\<close>

definition StrWhiteSpaceChar :: "string list" where
  "StrWhiteSpaceChar =
     [[CHR 0x09], [CHR 0x0A], [CHR 0x0B], [CHR 0x0C], [CHR 0x0D], [CHR 0x20],
      [CHR 0xC2, CHR 0xA0], [CHR 0xE1, CHR 0x9A, CHR 0x80],
      [CHR 0xE2, CHR 0x80, CHR 0x80], [CHR 0xE2, CHR 0x80, CHR 0x81],
      [CHR 0xE2, CHR 0x80, CHR 0x82], [CHR 0xE2, CHR 0x80, CHR 0x83],
      [CHR 0xE2, CHR 0x80, CHR 0x84], [CHR 0xE2, CHR 0x80, CHR 0x85],
      [CHR 0xE2, CHR 0x80, CHR 0x86], [CHR 0xE2, CHR 0x80, CHR 0x87],
      [CHR 0xE2, CHR 0x80, CHR 0x88], [CHR 0xE2, CHR 0x80, CHR 0x89],
      [CHR 0xE2, CHR 0x80, CHR 0x8A], [CHR 0xE2, CHR 0x80, CHR 0xA8],
      [CHR 0xE2, CHR 0x80, CHR 0xA9], [CHR 0xE2, CHR 0x80, CHR 0xAF],
      [CHR 0xE2, CHR 0x81, CHR 0x9F], [CHR 0xE3, CHR 0x80, CHR 0x80],
      [CHR 0xEF, CHR 0xBB, CHR 0xBF]]"

function strip :: "string list \<Rightarrow> string \<Rightarrow> string" where
  "strip ws s =
     (case find (\<lambda>p. p \<noteq> [] \<and> take (length p) s = p) ws of
        None \<Rightarrow> s
      | Some p \<Rightarrow> strip ws (drop (length p) s))"
  by pat_completeness auto
termination
proof (relation "measure (\<lambda>(ws, s). length s)")
  show "wf (measure (\<lambda>(ws, s). length s))"
    by simp
next
  fix ws :: "string list" and s p :: string
  assume "find (\<lambda>p. p \<noteq> [] \<and> take (length p) s = p) ws = Some p"
  then have "p \<noteq> []" and "take (length p) s = p"
    by (auto simp: find_Some_iff)
  then have "s \<noteq> []" and "0 < length p"
    by auto
  then show "((ws, drop (length p) s), (ws, s)) \<in> measure (\<lambda>(ws, s). length s)"
    by simp
qed

declare strip.simps [simp del]

definition trim :: "string \<Rightarrow> string" where
  "trim s = rev (strip (map rev StrWhiteSpaceChar) (rev (strip StrWhiteSpaceChar s)))"

definition digit_of :: "char \<Rightarrow> int option" where
  "digit_of c =
     (let n = of_char c :: int
      in if 48 \<le> n \<and> n \<le> 57 then Some (n - 48)
         else if 97 \<le> n \<and> n \<le> 102 then Some (n - 87)
         else if 65 \<le> n \<and> n \<le> 70 then Some (n - 55)
         else None)"

definition is_digit :: "int \<Rightarrow> char \<Rightarrow> bool" where
  "is_digit base c = (case digit_of c of None \<Rightarrow> False | Some d \<Rightarrow> d < base)"

definition digits_value :: "int \<Rightarrow> string \<Rightarrow> int" where
  "digits_value base ds =
     foldl (\<lambda>acc c. base * acc + (case digit_of c of None \<Rightarrow> 0 | Some d \<Rightarrow> d)) 0 ds"

definition NonDecimalIntegerLiteral :: "string \<Rightarrow> number option" where
  "NonDecimalIntegerLiteral t =
     (case t of
        z # x # ds \<Rightarrow>
          if z = CHR ''0'' \<and> ds \<noteq> [] then
            (if x \<in> set ''xX'' \<and> list_all (is_digit 16) ds
               then Some (round_double (digits_value 16 ds) 1)
             else if x \<in> set ''oO'' \<and> list_all (is_digit 8) ds
               then Some (round_double (digits_value 8 ds) 1)
             else if x \<in> set ''bB'' \<and> list_all (is_digit 2) ds
               then Some (round_double (digits_value 2 ds) 1)
             else None)
          else None
      | _ \<Rightarrow> None)"

definition DecimalDigits :: "string \<Rightarrow> int option" where
  "DecimalDigits ds =
     (if ds \<noteq> [] \<and> list_all (is_digit 10) ds then Some (digits_value 10 ds) else None)"

definition ExponentPart :: "string \<Rightarrow> int option" where
  "ExponentPart r =
     (case r of
        [] \<Rightarrow> Some 0
      | c # cs \<Rightarrow>
          if c \<in> set ''eE'' then
            (case cs of
               [] \<Rightarrow> None
             | s # ds \<Rightarrow>
                 if s = CHR ''+'' then DecimalDigits ds
                 else if s = CHR ''-'' then map_option uminus (DecimalDigits ds)
                 else DecimalDigits cs)
          else None)"

definition StrUnsignedDecimalLiteral :: "string \<Rightarrow> number" where
  "StrUnsignedDecimalLiteral u =
     (if u = ''Infinity'' then Infinity
      else
        let ip = takeWhile (is_digit 10) u;
            r1 = dropWhile (is_digit 10) u;
            dot = (r1 \<noteq> [] \<and> hd r1 = CHR ''.'');
            fp = (if dot then takeWhile (is_digit 10) (tl r1) else []);
            r2 = (if dot then dropWhile (is_digit 10) (tl r1) else r1)
        in if ip = [] \<and> fp = [] then NaN
           else
             (case ExponentPart r2 of
                None \<Rightarrow> NaN
              | Some e \<Rightarrow>
                  let m = digits_value 10 (ip @ fp); k = e - int (length fp)
                  in if 0 \<le> k then round_double (m * 10 ^ nat k) 1
                     else round_double m (10 ^ nat (- k))))"

definition StringToNumber :: "string \<Rightarrow> number" where
  "StringToNumber s =
     (let t = trim s
      in case t of
           [] \<Rightarrow> Num 0
         | c # cs \<Rightarrow>
             (case NonDecimalIntegerLiteral t of
                Some n \<Rightarrow> n
              | None \<Rightarrow>
                  if c = CHR ''+'' then StrUnsignedDecimalLiteral cs
                  else if c = CHR ''-'' then num_neg (StrUnsignedDecimalLiteral cs)
                  else StrUnsignedDecimalLiteral t))"

text \<open>
  \<open>ToNumber\<close> on a JSON value. An array converts through its string form, the elements
  joined by commas with \<open>null\<close> as the empty string: the empty array is \<open>0\<close>, a
  one-element array converts as its element's string does, and a longer array contains
  a comma and is \<open>NaN\<close>. A plain object prints as \<open>[object Object]\<close> and is \<open>NaN\<close>.
\<close>

fun ToNumber :: "json \<Rightarrow> number" where
  "ToNumber JNull = Num 0"
| "ToNumber (JBool b) = (if b then Num 1 else Num 0)"
| "ToNumber (JNumber n) = Num n"
| "ToNumber (JString s) = StringToNumber s"
| "ToNumber (JObject ms) = NaN"
| "ToNumber (JArray []) = Num 0"
| "ToNumber (JArray [JNull]) = Num 0"
| "ToNumber (JArray [JBool b]) = NaN"
| "ToNumber (JArray [JNumber n]) = Num n"
| "ToNumber (JArray [JString s]) = StringToNumber s"
| "ToNumber (JArray [JArray ys]) = ToNumber (JArray ys)"
| "ToNumber (JArray [JObject ms]) = NaN"
| "ToNumber (JArray (x # y # zs)) = NaN"

text \<open>\<open>Number(v)\<close> where \<open>v\<close> may be \<open>undefined\<close> (\<open>None\<close>): \<open>Number(undefined)\<close> is \<open>NaN\<close>.\<close>

fun Number :: "json option \<Rightarrow> number" where
  "Number None = NaN"
| "Number (Some v) = ToNumber v"

text \<open>The operator \<open>v ?? d\<close>: the default replaces \<open>undefined\<close> and \<open>null\<close> only.\<close>

fun nullish_or :: "json option \<Rightarrow> json \<Rightarrow> json" where
  "nullish_or None d = d"
| "nullish_or (Some JNull) d = d"
| "nullish_or (Some v) d = v"


section \<open>The remote store\<close>

text \<open>
  Modelled from the spec: the row types of the tables the server module queries (the
  generated types module \<open>@/types_db\<close> is missing). The columns are those the code
  reads and writes, with the relations of the specification's data model: a
  subscription belongs to a user and refers to a price, a price to a product, and a
  product carries the metadata. Instants (\<open>timestamptz\<close> columns and the ISO strings
  compared with them) are integers.
\<close>

type_synonym timestamp = int

record user =
  users_id :: string

record product =
  products_id :: string
  metadata :: json

record price =
  prices_id :: string
  product_id :: "string option"

record subscription_row =
  sub_user_id :: string
  sub_status :: string
  price_id :: "string option"
  current_period_start :: timestamp
  current_period_end :: timestamp

text \<open>
  Modelled from the spec: the row type of the \<open>jobs\<close> table (declared in the missing
  types module as well), with the attributes of the specification's data model. A job
  that has no user yet, no credits or no correlation key holds \<open>null\<close> (\<open>None\<close>) there.
\<close>

record job =
  job_id :: string
  user_id :: "string option"
  status :: string
  created_at :: timestamp
  credits :: "int option"
  is_deleted :: bool
  original_video_url :: "string option"
  transcription_id :: "string option"

record database =
  users :: "user list"
  subscriptions :: "subscription_row list"
  products :: "product list"
  prices :: "price list"
  jobs :: "job list"

text \<open>
  The shape \<open>select('*, prices(*, products(*))')\<close> returns: the subscription with its
  price embedded, and the price with its product embedded (\<open>None\<close> is \<open>null\<close>).
\<close>

record price_with_product = price +
  products_of :: "product option"

record subscription = subscription_row +
  prices_of :: "price_with_product option"

definition embed_product :: "database \<Rightarrow> price \<Rightarrow> price_with_product" where
  "embed_product d p =
     \<lparr>prices_id = prices_id p, product_id = product_id p,
      products_of = (case product_id p of
                       None \<Rightarrow> None
                     | Some k \<Rightarrow> find (\<lambda>q. products_id q = k) (products d))\<rparr>"

definition embed_price :: "database \<Rightarrow> subscription_row \<Rightarrow> subscription" where
  "embed_price d s =
     \<lparr>sub_user_id = sub_user_id s, sub_status = sub_status s, price_id = price_id s,
      current_period_start = current_period_start s,
      current_period_end = current_period_end s,
      prices_of = (case price_id s of
                     None \<Rightarrow> None
                   | Some k \<Rightarrow> map_option (embed_product d)
                                (find (\<lambda>p. prices_id p = k) (prices d)))\<rparr>"

subsection \<open>Requests and what the store answers\<close>

datatype error = PostgrestError string | AuthError string | TypeError string

text \<open>
  An update carries the object \<open>updatedFields\<close>: the columns to set, in the order of
  the object's keys. (An object that names no column of the table is a request the
  store rejects.)
\<close>

datatype assignment =
    Set_id string
  | Set_user_id "string option"
  | Set_status string
  | Set_created_at timestamp
  | Set_credits "int option"
  | Set_is_deleted bool
  | Set_original_video_url "string option"
  | Set_transcription_id "string option"

fun assign :: "job \<Rightarrow> assignment \<Rightarrow> job" where
  "assign j (Set_id v) = j\<lparr>job_id := v\<rparr>"
| "assign j (Set_user_id v) = j\<lparr>user_id := v\<rparr>"
| "assign j (Set_status v) = j\<lparr>status := v\<rparr>"
| "assign j (Set_created_at v) = j\<lparr>created_at := v\<rparr>"
| "assign j (Set_credits v) = j\<lparr>credits := v\<rparr>"
| "assign j (Set_is_deleted v) = j\<lparr>is_deleted := v\<rparr>"
| "assign j (Set_original_video_url v) = j\<lparr>original_video_url := v\<rparr>"
| "assign j (Set_transcription_id v) = j\<lparr>transcription_id := v\<rparr>"

definition set_fields :: "assignment list \<Rightarrow> job \<Rightarrow> job" where
  "set_fields fs j = foldl assign j fs"

text \<open>The filters the module puts on the \<open>jobs\<close> table.\<close>

datatype job_filter =
    Every_job
  | Eq_id string
  | Eq_original_video_url string
  | Eq_transcription_id string
  | Of_user_between string timestamp timestamp

fun job_matches :: "job_filter \<Rightarrow> job \<Rightarrow> bool" where
  "job_matches Every_job j = True"
| "job_matches (Eq_id k) j = (job_id j = k)"
| "job_matches (Eq_original_video_url u) j = (original_video_url j = Some u)"
| "job_matches (Eq_transcription_id t) j = (transcription_id j = Some t)"
| "job_matches (Of_user_between u a b) j =
     (user_id j = Some u \<and> a \<le> created_at j \<and> created_at j \<le> b)"

record job_payload =
  payload_user_id :: "string option"
  payload_status :: string

datatype request =
    Select_users
  | Select_subscriptions "string list"
  | Select_jobs job_filter
  | Insert_job job_payload
  | Update_jobs job_filter "assignment list"
  | Exchange_code string

fun is_select :: "request \<Rightarrow> bool" where
  "is_select Select_users = True"
| "is_select (Select_subscriptions _) = True"
| "is_select (Select_jobs _) = True"
| "is_select _ = False"

text \<open>
  What the store answers to one request is the environment's choice: a failure (network,
  permission, constraint), or acceptance. An accepted insert stores the payload over the
  column defaults the store evaluates for it (the generated key, the creation time, and
  the default of every column the payload leaves out), which come with the acceptance.
\<close>

datatype outcome = Failure error | Success job

text \<open>
  The world of one request: the tables, the answers the store will give to the next
  requests (a store that has no answer left fails), and the requests sent so far.
\<close>

record world =
  db :: database
  outcomes :: "outcome list"
  log :: "request list"

text \<open>
  A client is a credential. Row-level security is a policy of the store, not of the
  sources: a client stands for the rows its credential admits.
\<close>

record client =
  sees_user :: "user \<Rightarrow> bool"
  sees_subscription :: "subscription_row \<Rightarrow> bool"
  sees_job :: "job \<Rightarrow> bool"

text \<open>The service-role client bypasses row-level security.\<close>

definition supabaseService :: client where
  "supabaseService =
     \<lparr>sees_user = (\<lambda>_. True), sees_subscription = (\<lambda>_. True), sees_job = (\<lambda>_. True)\<rparr>"

subsection \<open>Asynchronous computations\<close>

text \<open>
  An \<open>async\<close> function runs in a world and ends with a value (\<open>Inr\<close>) or a thrown error
  (\<open>Inl\<close>, a rejected promise), leaving the world it has made.
\<close>

type_synonym 'a io = "world \<Rightarrow> (error + 'a) \<times> world"

definition return :: "'a \<Rightarrow> 'a io" where
  "return x = (\<lambda>w. (Inr x, w))"

definition throw :: "error \<Rightarrow> 'a io" where
  "throw e = (\<lambda>w. (Inl e, w))"

definition bind :: "'a io \<Rightarrow> ('a \<Rightarrow> 'b io) \<Rightarrow> 'b io" where
  "bind m f = (\<lambda>w. case m w of (Inl e, w') \<Rightarrow> (Inl e, w') | (Inr x, w') \<Rightarrow> f x w')"

definition try_catch :: "'a io \<Rightarrow> (error \<Rightarrow> 'a io) \<Rightarrow> 'a io" where
  "try_catch m h = (\<lambda>w. case m w of (Inl e, w') \<Rightarrow> h e w' | (Inr x, w') \<Rightarrow> (Inr x, w'))"

text \<open>Sending a request: it is logged, and the store's next answer is taken.\<close>

definition respond :: "request \<Rightarrow> world \<Rightarrow> outcome \<times> world" where
  "respond r w =
     (case outcomes w of
        [] \<Rightarrow> (Failure (PostgrestError ''no response''), w\<lparr>log := log w @ [r]\<rparr>)
      | x # xs \<Rightarrow> (x, w\<lparr>outcomes := xs, log := log w @ [r]\<rparr>))"

text \<open>
  The query builders. With \<open>.throwOnError()\<close> a failed query throws; these are the
  builders in that form, and \<open>settled\<close> below is the form without it.
\<close>

definition select_users :: "client \<Rightarrow> user list io" where
  "select_users c w =
     (case respond Select_users w of
        (Failure e, w') \<Rightarrow> (Inl e, w')
      | (Success _, w') \<Rightarrow> (Inr (filter (sees_user c) (users (db w'))), w'))"

definition select_subscriptions :: "client \<Rightarrow> string list \<Rightarrow> subscription list io" where
  "select_subscriptions c sts w =
     (case respond (Select_subscriptions sts) w of
        (Failure e, w') \<Rightarrow> (Inl e, w')
      | (Success _, w') \<Rightarrow>
          (Inr (map (embed_price (db w'))
                 (filter (\<lambda>s. sees_subscription c s \<and> sub_status s \<in> set sts)
                    (subscriptions (db w')))), w'))"

definition select_jobs :: "client \<Rightarrow> job_filter \<Rightarrow> job list io" where
  "select_jobs c f w =
     (case respond (Select_jobs f) w of
        (Failure e, w') \<Rightarrow> (Inl e, w')
      | (Success _, w') \<Rightarrow>
          (Inr (filter (\<lambda>j. sees_job c j \<and> job_matches f j) (jobs (db w'))), w'))"

text \<open>\<open>.order('created_at', { ascending: false })\<close>\<close>

definition order_created_at_desc :: "job list \<Rightarrow> job list" where
  "order_created_at_desc js = sort_key (\<lambda>j. - created_at j) js"

definition new_row :: "job_payload \<Rightarrow> job \<Rightarrow> job" where
  "new_row p d =
     d\<lparr>user_id := (case payload_user_id p of None \<Rightarrow> user_id d | Some u \<Rightarrow> Some u),
       status := payload_status p\<rparr>"

text \<open>\<open>.insert([payload]).select()\<close>: the stored row is returned.\<close>

definition insert_job :: "client \<Rightarrow> job_payload \<Rightarrow> job list io" where
  "insert_job c p w =
     (case respond (Insert_job p) w of
        (Failure e, w') \<Rightarrow> (Inl e, w')
      | (Success d, w') \<Rightarrow>
          (Inr [new_row p d],
           w'\<lparr>db := (db w')\<lparr>jobs := jobs (db w') @ [new_row p d]\<rparr>\<rparr>))"

text \<open>\<open>.update(fields).eq(column, value).select()\<close>: the rows as updated are returned.\<close>

definition update_jobs :: "client \<Rightarrow> job_filter \<Rightarrow> assignment list \<Rightarrow> job list io" where
  "update_jobs c f fs w =
     (case respond (Update_jobs f fs) w of
        (Failure e, w') \<Rightarrow> (Inl e, w')
      | (Success _, w') \<Rightarrow>
          (Inr (map (set_fields fs)
                 (filter (\<lambda>j. sees_job c j \<and> job_matches f j) (jobs (db w')))),
           w'\<lparr>db := (db w')\<lparr>jobs :=
                 map (\<lambda>j. if sees_job c j \<and> job_matches f j then set_fields fs j else j)
                   (jobs (db w'))\<rparr>\<rparr>))"

text \<open>
  \<open>.single()\<close> wants exactly one row and \<open>.maybeSingle()\<close> at most one; otherwise the
  query fails.
\<close>

definition single :: "'a list io \<Rightarrow> 'a io" where
  "single q = bind q (\<lambda>rows. case rows of
                               [x] \<Rightarrow> return x
                             | _ \<Rightarrow> throw (PostgrestError ''PGRST116''))"

definition maybeSingle :: "'a list io \<Rightarrow> 'a option io" where
  "maybeSingle q = bind q (\<lambda>rows. case rows of
                                    [] \<Rightarrow> return None
                                  | [x] \<Rightarrow> return (Some x)
                                  | _ \<Rightarrow> throw (PostgrestError ''PGRST116''))"

text \<open>
  Awaiting a builder without \<open>.throwOnError()\<close> never throws: it gives the pair
  \<open>{ data, error }\<close>, and \<open>data\<close> is \<open>null\<close> (\<open>None\<close>) when the query failed.
\<close>

definition settled :: "'a io \<Rightarrow> (error + 'a) io" where
  "settled q = (\<lambda>w. case q w of (r, w') \<Rightarrow> (Inr r, w'))"

fun data_of :: "error + 'a \<Rightarrow> 'a option" where
  "data_of (Inl e) = None"
| "data_of (Inr x) = Some x"


section \<open>The server module\<close>

text \<open>
  The functions of \<open>src/unnamed/part_002\<close>, under the names they have there.
  \<open>createClient()\<close> gives the client of the request's cookies: the parameter \<open>c\<close>
  (the configuration it reads is taken to be present, so that it returns a client).
  A \<open>try\<close> block with its \<open>catch\<close> is \<open>try_catch\<close>; every \<open>catch\<close> of the module logs
  the error and returns a fixed value.
\<close>

definition getUserDetails :: "client \<Rightarrow> user option io" where
  "getUserDetails c =
     try_catch
       (bind (single (select_users c)) (\<lambda>user. return (Some user)))
       (\<lambda>err. return None)"

definition getSubscription :: "client \<Rightarrow> subscription option io" where
  "getSubscription c =
     try_catch
       (bind (maybeSingle (select_subscriptions c [''trialing'', ''active'']))
          (\<lambda>subscription. return subscription))
       (\<lambda>err. return None)"

record getJobs_result =
  success :: bool
  data :: "job list option"
  error :: "error option"

definition getJobs :: "client \<Rightarrow> getJobs_result io" where
  "getJobs c =
     try_catch
       (bind (bind (select_jobs c Every_job) (\<lambda>rows. return (order_created_at_desc rows)))
          (\<lambda>jobs. return \<lparr>success = True, data = Some jobs, error = None\<rparr>))
       (\<lambda>err. return \<lparr>success = False, data = None, error = Some err\<rparr>)"

definition getJobsBetweenDates ::
  "client \<Rightarrow> string \<Rightarrow> timestamp \<Rightarrow> timestamp \<Rightarrow> job list option io" where
  "getJobsBetweenDates c userId startDate endDate =
     try_catch
       (bind (select_jobs c (Of_user_between userId startDate endDate))
          (\<lambda>jobs. return (Some jobs)))
       (\<lambda>err. return None)"

subsection \<open>Credit-balance logic\<close>

record balance =
  remaining :: number
  outOf :: number

text \<open>\<open>subscription.prices?.products?.metadata\<close>; \<open>None\<close> is \<open>undefined\<close>.\<close>

definition rawMetadata :: "subscription \<Rightarrow> json option" where
  "rawMetadata subscription =
     (case prices_of subscription of
        None \<Rightarrow> None
      | Some p \<Rightarrow> (case products_of p of None \<Rightarrow> None | Some q \<Rightarrow> Some (metadata q)))"

text \<open>
  The reducer of both branches:
  \<open>jobs.reduce((sum, job) => sum + (job.credits || 0), 0)\<close>. The operand
  \<open>job.credits || 0\<close> is \<open>0\<close> for \<open>null\<close> and for \<open>0\<close>.
\<close>

definition credits_or_0 :: "job \<Rightarrow> int" where
  "credits_or_0 j = (case credits j of None \<Rightarrow> 0 | Some n \<Rightarrow> if n = 0 then 0 else n)"

definition creditsSpent :: "job list \<Rightarrow> int" where
  "creditsSpent js = foldl (\<lambda>sum job. sum + credits_or_0 job) 0 js"

definition getCreditBalance :: "client \<Rightarrow> balance io" where
  "getCreditBalance c =
     bind (getSubscription c) (\<lambda>subscription.
       case subscription of
         Some sub \<Rightarrow>
           (let raw = rawMetadata sub;
                meta =
                  (case raw of
                     None \<Rightarrow> None
                   | Some m \<Rightarrow>
                       if truthy m \<and> typeof_object m \<and> m \<noteq> JNull \<and> has_member ''credits'' m
                       then Some m else None);
                subscriptionCredits =
                  ToNumber (nullish_or
                    (case meta of None \<Rightarrow> None | Some m \<Rightarrow> property ''credits'' m)
                    (JNumber 0))
            in bind (getJobsBetweenDates c (sub_user_id sub)
                       (current_period_start sub) (current_period_end sub))
                 (\<lambda>jobs.
                    let spent = (case jobs of Some js \<Rightarrow> creditsSpent js | None \<Rightarrow> 0)
                    in return \<lparr>remaining = num_sub subscriptionCredits (Num spent),
                               outOf = subscriptionCredits\<rparr>))
       | None \<Rightarrow>
           (let defaultCredits = Num 7500
            in bind (getJobs c) (\<lambda>r.
                 if success r then
                   (case data r of
                      None \<Rightarrow> throw (TypeError ''Cannot read properties of null'')
                    | Some allJobs \<Rightarrow>
                        return \<lparr>remaining = num_sub defaultCredits (Num (creditsSpent allJobs)),
                                outOf = defaultCredits\<rparr>)
                 else return \<lparr>remaining = num_sub defaultCredits (Num 0),
                              outOf = defaultCredits\<rparr>)))"

subsection \<open>Job mutation helpers\<close>

definition insertJob :: "client \<Rightarrow> job list io" where
  "insertJob c =
     bind (getUserDetails c) (\<lambda>user.
       let jobPayload = \<lparr>payload_user_id = map_option users_id user,
                         payload_status = ''pending''\<rparr>
       in try_catch
            (bind (insert_job c jobPayload) (\<lambda>rows. return rows))
            (\<lambda>err. return []))"

text \<open>
  In \<open>insertJob\<close> above and in the three updates \<open>data ?? []\<close> is \<open>data\<close>: a query that
  did not throw returned its rows.
\<close>

definition updateJob :: "client \<Rightarrow> string \<Rightarrow> assignment list \<Rightarrow> job list io" where
  "updateJob c jobId updatedFields =
     try_catch
       (bind (update_jobs c (Eq_id jobId) updatedFields) (\<lambda>rows. return rows))
       (\<lambda>err. return [])"

definition updateJobByOriginalVideoUrl ::
  "client \<Rightarrow> string \<Rightarrow> assignment list \<Rightarrow> job list io" where
  "updateJobByOriginalVideoUrl c originalVideoUrl updatedFields =
     try_catch
       (bind (update_jobs c (Eq_original_video_url originalVideoUrl) updatedFields)
          (\<lambda>rows. return rows))
       (\<lambda>err. return [])"

definition updateJobByTranscriptionId :: "string \<Rightarrow> assignment list \<Rightarrow> job list io" where
  "updateJobByTranscriptionId transcriptionId updatedFields =
     try_catch
       (bind (update_jobs supabaseService (Eq_transcription_id transcriptionId) updatedFields)
          (\<lambda>rows. return rows))
       (\<lambda>err. return [])"

section \<open>The other copy of the server module\<close>

text \<open>
  \<open>src/unnamed/part_001\<close> declares the same functions. Its queries, \<open>getSubscription\<close>
  apart, are awaited without \<open>.throwOnError()\<close>, its \<open>getCreditBalance\<close> reads the
  metadata without a guard, and its \<open>insertJob\<close> has no \<open>try\<close>. The names carry the
  suffix \<open>_001\<close>.
\<close>

definition getUserDetails_001 :: "client \<Rightarrow> user option io" where
  "getUserDetails_001 c =
     try_catch
       (bind (settled (single (select_users c))) (\<lambda>r. return (data_of r)))
       (\<lambda>err. return None)"

definition getSubscription_001 :: "client \<Rightarrow> subscription option io" where
  "getSubscription_001 c =
     try_catch
       (bind (maybeSingle (select_subscriptions c [''trialing'', ''active'']))
          (\<lambda>subscription. return subscription))
       (\<lambda>err. return None)"

definition getJobs_001 :: "client \<Rightarrow> getJobs_result io" where
  "getJobs_001 c =
     try_catch
       (bind (settled (bind (select_jobs c Every_job)
                         (\<lambda>rows. return (order_created_at_desc rows))))
          (\<lambda>r. return \<lparr>success = True, data = data_of r, error = None\<rparr>))
       (\<lambda>err. return \<lparr>success = False, data = None, error = Some err\<rparr>)"

definition getJobsBetweenDates_001 ::
  "client \<Rightarrow> string \<Rightarrow> timestamp \<Rightarrow> timestamp \<Rightarrow> job list option io" where
  "getJobsBetweenDates_001 c userId startDate endDate =
     try_catch
       (bind (settled (select_jobs c (Of_user_between userId startDate endDate)))
          (\<lambda>r. return (data_of r)))
       (\<lambda>err. return None)"

definition getCreditBalance_001 :: "client \<Rightarrow> balance io" where
  "getCreditBalance_001 c =
     bind (getSubscription_001 c) (\<lambda>subscription.
       case subscription of
         Some sub \<Rightarrow>
           (let meta = rawMetadata sub;
                subscriptionCredits =
                  Number (case meta of None \<Rightarrow> None | Some m \<Rightarrow> property ''credits'' m)
            in bind (getJobsBetweenDates_001 c (sub_user_id sub)
                       (current_period_start sub) (current_period_end sub))
                 (\<lambda>jobs.
                    let spent = (case jobs of Some js \<Rightarrow> creditsSpent js | None \<Rightarrow> 0)
                    in return \<lparr>remaining = num_sub subscriptionCredits (Num spent),
                               outOf = subscriptionCredits\<rparr>))
       | None \<Rightarrow>
           (let defaultCredits = Num 7500
            in bind (getJobs_001 c) (\<lambda>r.
                 if success r then
                   (case data r of
                      None \<Rightarrow> throw (TypeError ''Cannot read properties of null'')
                    | Some allJobs \<Rightarrow>
                        return \<lparr>remaining = num_sub defaultCredits (Num (creditsSpent allJobs)),
                                outOf = defaultCredits\<rparr>)
                 else return \<lparr>remaining = num_sub defaultCredits (Num 0),
                              outOf = defaultCredits\<rparr>)))"

definition insertJob_001 :: "client \<Rightarrow> job list io" where
  "insertJob_001 c =
     bind (getUserDetails_001 c) (\<lambda>user.
       let jobPayload = \<lparr>payload_user_id = map_option users_id user,
                         payload_status = ''pending''\<rparr>
       in bind (settled (insert_job c jobPayload))
            (\<lambda>r. return (case data_of r of None \<Rightarrow> [] | Some rows \<Rightarrow> rows)))"

section \<open>The OAuth callback route\<close>

text \<open>
  \<open>src/app/auth/callback/route.ts\<close>. A request is its parsed URL: the origin and the
  query parameters in order (\<open>searchParams.get\<close> reads the first value of a name). The
  client that \<open>createClient()\<close> builds from the request's cookies also holds the PKCE
  code verifier that the sign-in left in them, if any.

  \<open>exchangeCodeForSession\<close> belongs to the client library. Without a code verifier it
  sends nothing and answers with an auth error. With one it sends the exchange: an auth
  error comes back in the pair \<open>{ data, error }\<close>, and so does a failed request, which
  the library wraps as an auth error; any other error is thrown again. The handler
  awaits the call outside any \<open>try\<close> and drops the pair. The test \<open>if (code)\<close> is false for a missing
  parameter and for an empty one.
\<close>

record NextRequest =
  origin :: string
  searchParams :: "(string \<times> string) list"

datatype NextResponse = Redirect string

record auth_client = client +
  code_verifier :: "string option"

fun as_AuthError :: "error \<Rightarrow> error option" where
  "as_AuthError (AuthError m) = Some (AuthError m)"
| "as_AuthError (PostgrestError m) = Some (AuthError m)"
| "as_AuthError (TypeError m) = None"

definition exchangeCodeForSession :: "auth_client \<Rightarrow> string \<Rightarrow> (error + unit) io" where
  "exchangeCodeForSession c code w =
     (case code_verifier c of
        None \<Rightarrow> (Inr (Inl (AuthError ''PKCE code verifier not found in storage'')), w)
      | Some verifier \<Rightarrow>
          (case respond (Exchange_code code) w of
             (Success _, w') \<Rightarrow> (Inr (Inr ()), w')
           | (Failure e, w') \<Rightarrow>
               (case as_AuthError e of
                  Some auth \<Rightarrow> (Inr (Inl auth), w')
                | None \<Rightarrow> (Inl e, w'))))"

definition GET :: "auth_client \<Rightarrow> NextRequest \<Rightarrow> NextResponse io" where
  "GET c request =
     (let code = map_of (searchParams request) ''code''
      in bind (case code of
                 None \<Rightarrow> return ()
               | Some v \<Rightarrow>
                   if v \<noteq> [] then bind (exchangeCodeForSession c v) (\<lambda>_. return ())
                   else return ())
           (\<lambda>_. return (Redirect (origin request @ ''/subscription''))))"

section \<open>Example data\<close>

text \<open>
  A client whose credential admits the rows of one user, a store with a subscriber
  \<open>u1\<close> (period \<open>[100, 200]\<close>, the product's metadata a parameter) and a user \<open>u2\<close>
  without a subscription, and the answer of a store that accepts.
\<close>

definition owner_client :: "string \<Rightarrow> client" where
  "owner_client uid =
     \<lparr>sees_user = (\<lambda>u. users_id u = uid),
      sees_subscription = (\<lambda>s. sub_user_id s = uid),
      sees_job = (\<lambda>j. user_id j = Some uid)\<rparr>"

definition example_job :: "string \<Rightarrow> string \<Rightarrow> timestamp \<Rightarrow> int option \<Rightarrow> bool \<Rightarrow> job" where
  "example_job k u t cr del =
     \<lparr>job_id = k, user_id = Some u, status = ''done'', created_at = t, credits = cr,
      is_deleted = del, original_video_url = None, transcription_id = None\<rparr>"

definition column_defaults :: job where
  "column_defaults =
     \<lparr>job_id = ''j9'', user_id = None, status = ''pending'', created_at = 500, credits = None,
      is_deleted = False, original_video_url = None, transcription_id = None\<rparr>"

definition accepted :: outcome where
  "accepted = Success column_defaults"

definition example_db :: "json \<Rightarrow> database" where
  "example_db m =
     \<lparr>users = [\<lparr>users_id = ''u1''\<rparr>, \<lparr>users_id = ''u2''\<rparr>],
      subscriptions =
        [\<lparr>sub_user_id = ''u1'', sub_status = ''active'', price_id = Some ''price1'',
          current_period_start = 100, current_period_end = 200\<rparr>,
         \<lparr>sub_user_id = ''u2'', sub_status = ''canceled'', price_id = Some ''price1'',
          current_period_start = 0, current_period_end = 50\<rparr>],
      products = [\<lparr>products_id = ''prod1'', metadata = m\<rparr>],
      prices = [\<lparr>prices_id = ''price1'', product_id = Some ''prod1''\<rparr>],
      jobs =
        [example_job ''j1'' ''u1'' 100 (Some 100) False,
         example_job ''j2'' ''u1'' 200 (Some 50) True,
         example_job ''j3'' ''u1'' 250 (Some 900) False,
         example_job ''j4'' ''u2'' 10 (Some 1000) False,
         example_job ''j5'' ''u2'' 150 (Some 2000) True,
         example_job ''j6'' ''u2'' 400 (Some 500) False,
         example_job ''j7'' ''u2'' 401 None False]\<rparr>"

definition example_world :: "json \<Rightarrow> outcome list \<Rightarrow> world" where
  "example_world m os = \<lparr>db = example_db m, outcomes = os, log = []\<rparr>"

text \<open>
  The client of a callback request: no row is admitted before the sign-in is complete,
  and the code verifier is a parameter.
\<close>

definition callback_client :: "string option \<Rightarrow> auth_client" where
  "callback_client cv =
     \<lparr>sees_user = (\<lambda>_. False), sees_subscription = (\<lambda>_. False), sees_job = (\<lambda>_. False),
      code_verifier = cv\<rparr>"

section \<open>How the helpers answer\<close>

text \<open>
  Each lookup of the module sends one request, leaves the tables alone and never throws:
  a failed query becomes \<open>null\<close>, or \<open>success = false\<close> for the listing.
\<close>

lemmas io_defs = return_def throw_def bind_def try_catch_def settled_def single_def maybeSingle_def

lemma respond_db: "db (snd (respond r w)) = db w"
  by (simp add: respond_def split: list.splits)

lemma respond_log: "log (snd (respond r w)) = log w @ [r]"
  by (simp add: respond_def split: list.splits)

lemma respond_outcomes: "outcomes (snd (respond r w)) = tl (outcomes w)"
  by (simp add: respond_def split: list.splits)

lemma getSubscription_world:
  "snd (getSubscription c w) = snd (respond (Select_subscriptions [''trialing'', ''active'']) w)"
  by (auto simp: getSubscription_def io_defs select_subscriptions_def
      split: prod.splits sum.splits outcome.splits list.splits)

lemma getSubscription_cases:
  "fst (getSubscription c w) = Inr None \<or> (\<exists>sub. fst (getSubscription c w) = Inr (Some sub))"
  by (auto simp: getSubscription_def io_defs select_subscriptions_def
      split: prod.splits sum.splits outcome.splits list.splits)

lemma getSubscription_failure:
  "outcomes w = Failure e # rest \<Longrightarrow> fst (getSubscription c w) = Inr None"
  by (simp add: getSubscription_def io_defs select_subscriptions_def respond_def)

lemma getSubscription_none:
  assumes "\<forall>s\<in>set (subscriptions (db w)).
             sees_subscription c s \<longrightarrow> sub_status s \<noteq> ''trialing'' \<and> sub_status s \<noteq> ''active''"
  shows "fst (getSubscription c w) = Inr None"
proof -
  have "filter (\<lambda>s. sees_subscription c s \<and> sub_status s \<in> set [''trialing'', ''active''])
          (subscriptions (db w)) = []"
    using assms by (auto simp: filter_empty_conv)
  then show ?thesis
    by (simp add: getSubscription_def io_defs select_subscriptions_def respond_def
        split: prod.splits sum.splits outcome.splits list.splits)
qed

lemma getJobs_world:
  "snd (getJobs c w) = snd (respond (Select_jobs Every_job) w)"
  by (auto simp: getJobs_def io_defs select_jobs_def
      split: prod.splits sum.splits outcome.splits list.splits)

lemma getJobs_cases:
  "(\<exists>js. fst (getJobs c w) = Inr \<lparr>success = True, data = Some js, error = None\<rparr>) \<or>
   (\<exists>e. fst (getJobs c w) = Inr \<lparr>success = False, data = None, error = Some e\<rparr>)"
  by (auto simp: getJobs_def io_defs select_jobs_def
      split: prod.splits sum.splits outcome.splits list.splits)

lemma getJobs_failure:
  "outcomes w = Failure e # rest \<Longrightarrow>
   fst (getJobs c w) = Inr \<lparr>success = False, data = None, error = Some e\<rparr>"
  by (simp add: getJobs_def io_defs select_jobs_def respond_def)

lemma getJobs_listing:
  assumes "fst (getJobs c w) = Inr r" and "data r = Some js"
  shows "mset js = mset (filter (sees_job c) (jobs (db w)))"
  using assms
  by (auto simp: getJobs_def io_defs select_jobs_def order_created_at_desc_def respond_def
      split: prod.splits sum.splits outcome.splits list.splits)

lemma getJobsBetweenDates_world:
  "snd (getJobsBetweenDates c u a b w) = snd (respond (Select_jobs (Of_user_between u a b)) w)"
  by (auto simp: getJobsBetweenDates_def io_defs select_jobs_def
      split: prod.splits sum.splits outcome.splits list.splits)

lemma getJobsBetweenDates_total: "\<exists>jo. fst (getJobsBetweenDates c u a b w) = Inr jo"
  by (auto simp: getJobsBetweenDates_def io_defs select_jobs_def
      split: prod.splits sum.splits outcome.splits list.splits)

lemma getJobsBetweenDates_failure:
  "outcomes w = Failure e # rest \<Longrightarrow> fst (getJobsBetweenDates c u a b w) = Inr None"
  by (simp add: getJobsBetweenDates_def io_defs select_jobs_def respond_def)

lemma free_tier_002:
  assumes "fst (getSubscription c w) = Inr None"
  shows "getCreditBalance c w =
     (case fst (getJobs c (snd (getSubscription c w))) of
        Inl e \<Rightarrow> Inl e
      | Inr r \<Rightarrow>
          if success r then
            (case data r of
               None \<Rightarrow> Inl (TypeError ''Cannot read properties of null'')
             | Some allJobs \<Rightarrow>
                 Inr \<lparr>remaining = Num (7500 - creditsSpent allJobs), outOf = Num 7500\<rparr>)
          else Inr \<lparr>remaining = Num 7500, outOf = Num 7500\<rparr>,
      snd (getJobs c (snd (getSubscription c w))))"
  using assms
  by (cases "getSubscription c w"; cases "getJobs c (snd (getSubscription c w))")
     (auto simp: getCreditBalance_def bind_def return_def throw_def Let_def
       split: sum.splits option.splits)

text \<open>Three helpers of the other copy answer as those of the module do.\<close>

lemma getSubscription_001_eq: "getSubscription_001 = getSubscription"
  by (simp add: getSubscription_001_def getSubscription_def fun_eq_iff)

lemma getJobsBetweenDates_001_eq:
  "getJobsBetweenDates_001 c u a b w = getJobsBetweenDates c u a b w"
  by (auto simp: getJobsBetweenDates_001_def getJobsBetweenDates_def io_defs select_jobs_def
      split: prod.splits sum.splits outcome.splits list.splits)

lemma getUserDetails_001_eq: "getUserDetails_001 c w = getUserDetails c w"
  by (auto simp: getUserDetails_001_def getUserDetails_def io_defs select_users_def
      split: prod.splits sum.splits outcome.splits list.splits)

text \<open>The reducer is a sum, so the order of the listing does not matter.\<close>

lemma foldl_credits:
  "foldl (\<lambda>sum job. sum + credits_or_0 job) a js = a + sum_list (map credits_or_0 js)"
  by (induction js arbitrary: a) simp_all

lemma creditsSpent_sum_list: "creditsSpent js = sum_list (map credits_or_0 js)"
  by (simp add: creditsSpent_def foldl_credits)

lemma credits_or_0_case:
  "credits_or_0 = (\<lambda>j. case credits j of None \<Rightarrow> 0 | Some n \<Rightarrow> n)"
  by (rule ext) (simp add: credits_or_0_def split: option.splits)

lemma creditsSpent_mset: "mset js = mset ks \<Longrightarrow> creditsSpent js = creditsSpent ks"
proof -
  assume "mset js = mset ks"
  then have "mset (map credits_or_0 js) = mset (map credits_or_0 ks)"
    by (metis mset_map)
  then have "sum_mset (mset (map credits_or_0 js)) = sum_mset (mset (map credits_or_0 ks))"
    by (rule arg_cong)
  then have "sum_list (map credits_or_0 js) = sum_list (map credits_or_0 ks)"
    by (simp only: sum_mset_sum_list)
  then show ?thesis
    by (simp add: creditsSpent_sum_list)
qed

text \<open>The allotment the guarded module reads from the metadata.\<close>

lemma subscribed_002:
  assumes "getSubscription c w = (Inr (Some sub), w1)"
    and "getJobsBetweenDates c (sub_user_id sub) (current_period_start sub)
           (current_period_end sub) w1 = (Inr jo, w2)"
  shows "\<exists>N. getCreditBalance c w =
           (Inr \<lparr>remaining = num_sub N (Num (case jo of Some js \<Rightarrow> creditsSpent js | None \<Rightarrow> 0)),
                 outOf = N\<rparr>, w2) \<and>
         (\<forall>ms v. rawMetadata sub = Some (JObject ms) \<and> map_of ms ''credits'' = Some v
                   \<longrightarrow> N = ToNumber v) \<and>
         ((case rawMetadata sub of None \<Rightarrow> None | Some m \<Rightarrow> property ''credits'' m)
             \<in> {None, Some JNull} \<longrightarrow> N = Num 0)"
proof -
  let ?meta = "case rawMetadata sub of
                 None \<Rightarrow> None
               | Some m \<Rightarrow>
                   if truthy m \<and> typeof_object m \<and> m \<noteq> JNull \<and> has_member ''credits'' m
                   then Some m else None"
  let ?N = "ToNumber (nullish_or
              (case ?meta of None \<Rightarrow> None | Some m \<Rightarrow> property ''credits'' m) (JNumber 0))"
  have run: "getCreditBalance c w =
           (Inr \<lparr>remaining = num_sub ?N (Num (case jo of Some js \<Rightarrow> creditsSpent js | None \<Rightarrow> 0)),
                 outOf = ?N\<rparr>, w2)"
    using assms by (simp add: getCreditBalance_def bind_def return_def Let_def)
  have present: "?N = ToNumber v"
    if "rawMetadata sub = Some (JObject ms)" "map_of ms ''credits'' = Some v" for ms v
    using that by (cases v) simp_all
  have absent: "?N = Num 0"
    if "(case rawMetadata sub of None \<Rightarrow> None | Some m \<Rightarrow> property ''credits'' m)
          \<in> {None, Some JNull}"
    using that by (auto split: option.splits)
  show ?thesis
    using run present absent by blast
qed

lemma subscribed_001:
  assumes "getSubscription c w = (Inr (Some sub), w1)"
    and "getJobsBetweenDates c (sub_user_id sub) (current_period_start sub)
           (current_period_end sub) w1 = (Inr jo, w2)"
  shows "getCreditBalance_001 c w =
     (Inr \<lparr>remaining =
             num_sub (Number (case rawMetadata sub of None \<Rightarrow> None
                              | Some m \<Rightarrow> property ''credits'' m))
               (Num (case jo of Some js \<Rightarrow> creditsSpent js | None \<Rightarrow> 0)),
           outOf = Number (case rawMetadata sub of None \<Rightarrow> None
                           | Some m \<Rightarrow> property ''credits'' m)\<rparr>, w2)"
  using assms
  by (simp add: getCreditBalance_001_def bind_def return_def Let_def
      getSubscription_001_eq getJobsBetweenDates_001_eq)

text \<open>Unfolding sets for evaluating the model at the example data.\<close>

lemmas store_defs = respond_def select_users_def select_subscriptions_def select_jobs_def
  insert_job_def update_jobs_def embed_price_def embed_product_def new_row_def
  order_created_at_desc_def

lemmas example_defs = owner_client_def example_job_def column_defaults_def accepted_def
  example_db_def example_world_def

text \<open>The conversion at the strings of the examples.\<close>

lemma StringToNumber_examples:
  "StringToNumber ''500'' = Num 500"
  "StringToNumber ''120'' = Num 120"
  "StringToNumber ''500.0'' = Num 500"
  "StringToNumber ''1e3'' = Num 1000"
  "StringToNumber ''0x1F4'' = Num 500"
  "StringToNumber ''9007199254740993'' = Num 9007199254740992"
  "StringToNumber ''0.5'' = Frac 1 1"
  "StringToNumber ''abc'' = NaN"
  by code_simp+

lemmas number_defs = StringToNumber_examples

section \<open>The credit balance of a subscriber\<close>



section \<open>The credit balance of the free tier\<close>

text \<open>
  Claim C2. When no subscription row that the session's credential admits has the
  status \<open>trialing\<close> or \<open>active\<close>, \<open>getCreditBalance\<close> returns \<open>outOf = 7500\<close> and
  \<open>remaining = 7500 - S\<close>, where \<open>S\<close> is the sum of the credits of the jobs that the
  listing \<open>getJobs\<close> returns (nothing, when the listing fails). A listing that succeeds
  is every job the credential admits: no billing period, no explicit user id and no
  \<open>is_deleted\<close> flag filters it.
\<close>

theorem getCreditBalance_free_tier:
  assumes "\<forall>s\<in>set (subscriptions (db w)).
             sees_subscription c s \<longrightarrow> sub_status s \<noteq> ''trialing'' \<and> sub_status s \<noteq> ''active''"
  shows "\<exists>r. fst (getJobs c (snd (getSubscription c w))) = Inr r \<and>
           fst (getCreditBalance c w) =
             Inr \<lparr>remaining =
                    Num (7500 - (case data r of
                                   None \<Rightarrow> 0
                                 | Some js \<Rightarrow>
                                     (\<Sum>j\<leftarrow>js. case credits j of None \<Rightarrow> 0 | Some n \<Rightarrow> n))),
                  outOf = Num 7500\<rparr> \<and>
           (\<forall>js. data r = Some js \<longrightarrow>
              mset js = mset (filter (sees_job c) (jobs (db w))) \<and>
              (\<Sum>j\<leftarrow>js. case credits j of None \<Rightarrow> 0 | Some n \<Rightarrow> n) =
              (\<Sum>j\<leftarrow>filter (sees_job c) (jobs (db w)).
                 case credits j of None \<Rightarrow> 0 | Some n \<Rightarrow> n))"
proof -
  let ?w1 = "snd (getSubscription c w)"
  have none: "fst (getSubscription c w) = Inr None"
    using assms by (rule getSubscription_none)
  have all: "mset js = mset (filter (sees_job c) (jobs (db w))) \<and>
      (\<Sum>j\<leftarrow>js. case credits j of None \<Rightarrow> 0 | Some n \<Rightarrow> n) =
      (\<Sum>j\<leftarrow>filter (sees_job c) (jobs (db w)). case credits j of None \<Rightarrow> 0 | Some n \<Rightarrow> n)"
    if "fst (getJobs c ?w1) = Inr r" "data r = Some js" for r js
  proof -
    have listed: "mset js = mset (filter (sees_job c) (jobs (db w)))"
      using getJobs_listing [OF that] by (simp add: getSubscription_world respond_db)
    from creditsSpent_mset [OF this] show ?thesis
      using listed by (simp add: creditsSpent_sum_list credits_or_0_case)
  qed
  from getJobs_cases [of c ?w1] show ?thesis
  proof
    assume "\<exists>js. fst (getJobs c ?w1) = Inr \<lparr>success = True, data = Some js, error = None\<rparr>"
    then obtain js where
      r: "fst (getJobs c ?w1) = Inr \<lparr>success = True, data = Some js, error = None\<rparr>"
      by blast
    have "fst (getCreditBalance c w) =
        Inr \<lparr>remaining = Num (7500 - creditsSpent js), outOf = Num 7500\<rparr>"
      using free_tier_002 [OF none] r by simp
    then show ?thesis
      using r all [OF r] by (simp add: creditsSpent_sum_list credits_or_0_case)
  next
    assume "\<exists>e. fst (getJobs c ?w1) = Inr \<lparr>success = False, data = None, error = Some e\<rparr>"
    then obtain e where
      r: "fst (getJobs c ?w1) = Inr \<lparr>success = False, data = None, error = Some e\<rparr>"
      by blast
    have "fst (getCreditBalance c w) = Inr \<lparr>remaining = Num 7500, outOf = Num 7500\<rparr>"
      using free_tier_002 [OF none] r by simp
    then show ?thesis
      using r by simp
  qed
qed

text \<open>
  At the example store the user \<open>u2\<close> has jobs of \<open>1000\<close>, \<open>2000\<close> (deleted) and
  \<open>500\<close> credits and one without credits, inside and outside the period of the
  canceled subscription: \<open>4000\<close> of \<open>7500\<close> remain.
\<close>

theorem getCreditBalance_free_tier_witness:
  "fst (getCreditBalance (owner_client ''u2'') (example_world JNull [accepted, accepted])) =
     Inr \<lparr>remaining = Num 4000, outOf = Num 7500\<rparr> \<and>
   mset [example_job ''j7'' ''u2'' 401 None False,
         example_job ''j6'' ''u2'' 400 (Some 500) False,
         example_job ''j5'' ''u2'' 150 (Some 2000) True,
         example_job ''j4'' ''u2'' 10 (Some 1000) False] =
   mset (filter (sees_job (owner_client ''u2'')) (jobs (db (example_world JNull [accepted, accepted]))))"
proof -
  let ?c = "owner_client ''u2''"
  let ?w = "example_world JNull [accepted, accepted]"
  let ?js = "[example_job ''j7'' ''u2'' 401 None False,
              example_job ''j6'' ''u2'' 400 (Some 500) False,
              example_job ''j5'' ''u2'' 150 (Some 2000) True,
              example_job ''j4'' ''u2'' 10 (Some 1000) False]"
  have no_sub: "\<forall>s\<in>set (subscriptions (db ?w)).
      sees_subscription ?c s \<longrightarrow> sub_status s \<noteq> ''trialing'' \<and> sub_status s \<noteq> ''active''"
    by (simp add: example_defs)
  have listing: "fst (getJobs ?c (snd (getSubscription ?c ?w))) =
      Inr \<lparr>success = True, data = Some ?js, error = None\<rparr>"
    by (simp add: getSubscription_def getJobs_def io_defs store_defs example_defs)
  obtain r where r: "fst (getJobs ?c (snd (getSubscription ?c ?w))) = Inr r"
    and balance: "fst (getCreditBalance ?c ?w) =
      Inr \<lparr>remaining =
             Num (7500 - (case data r of
                            None \<Rightarrow> 0
                          | Some js \<Rightarrow> (\<Sum>j\<leftarrow>js. case credits j of None \<Rightarrow> 0 | Some n \<Rightarrow> n))),
           outOf = Num 7500\<rparr>"
    and every: "\<forall>js. data r = Some js \<longrightarrow>
      mset js = mset (filter (sees_job ?c) (jobs (db ?w)))"
    using getCreditBalance_free_tier [OF no_sub] by blast
  have "r = \<lparr>success = True, data = Some ?js, error = None\<rparr>"
    using r listing by simp
  then show ?thesis
    using balance every by (simp add: example_job_def)
qed

section \<open>Metadata without a usable allotment\<close>

text \<open>
  Claim C3 says that an absent or malformed credits field makes the allotment \<open>0\<close> and
  that the result is never \<open>NaN\<close>. The guard of \<open>getCreditBalance\<close> replaces a missing
  value only: with the metadata \<open>{"credits": "abc"}\<close> and in-period jobs of \<open>150\<close>
  credits, both fields are \<open>NaN\<close>.
\<close>

theorem getCreditBalance_malformed_counterexample:
  "fst (getCreditBalance (owner_client ''u1'')
          (example_world (JObject [(''credits'', JString ''abc'')]) [accepted, accepted])) =
     Inr \<lparr>remaining = NaN, outOf = NaN\<rparr> \<and>
   fst (getCreditBalance (owner_client ''u1'')
          (example_world (JObject [(''credits'', JString ''abc'')]) [accepted, accepted])) \<noteq>
     Inr \<lparr>remaining = Num (0 - 150), outOf = Num 0\<rparr>"
  by (simp add: getCreditBalance_def getSubscription_def getJobsBetweenDates_def io_defs
      store_defs example_defs number_defs rawMetadata_def Let_def)

text \<open>
  Claim C3, amended. When the subscription lookup yields a subscription whose product
  metadata is missing, is not an object, or has no credits member or a \<open>null\<close> one,
  \<open>getCreditBalance\<close> takes the allotment to be \<open>0\<close> and returns \<open>remaining = 0 - S\<close> and
  \<open>outOf = 0\<close>, where \<open>S\<close> is the sum of the credits of the jobs that the in-period
  query returns (nothing, when that query fails).
\<close>

theorem getCreditBalance_credits_absent:
  assumes "getSubscription c w = (Inr (Some sub), w1)"
    and "(case rawMetadata sub of None \<Rightarrow> None | Some m \<Rightarrow> property ''credits'' m)
           \<in> {None, Some JNull}"
    and "getJobsBetweenDates c (sub_user_id sub) (current_period_start sub)
           (current_period_end sub) w1 = (Inr jo, w2)"
  shows "fst (getCreditBalance c w) =
           Inr \<lparr>remaining =
                  Num (0 - (case jo of
                              None \<Rightarrow> 0
                            | Some js \<Rightarrow>
                                (\<Sum>j\<leftarrow>js. case credits j of None \<Rightarrow> 0 | Some n \<Rightarrow> n))),
                outOf = Num 0\<rparr>"
proof -
  obtain N where
    run: "getCreditBalance c w =
            (Inr \<lparr>remaining = num_sub N (Num (case jo of Some js \<Rightarrow> creditsSpent js | None \<Rightarrow> 0)),
                  outOf = N\<rparr>, w2)"
    and N: "N = Num 0"
    using subscribed_002 [OF assms(1) assms(3)] assms(2) by auto
  show ?thesis
    using run N
    by (cases jo) (simp_all add: creditsSpent_sum_list credits_or_0_case)
qed

text \<open>
  At the example store, with a metadata object that has no credits member and with the
  metadata \<open>null\<close>: \<open>-150\<close> of \<open>0\<close>.
\<close>

theorem getCreditBalance_credits_absent_witness:
  "fst (getCreditBalance (owner_client ''u1'')
          (example_world (JObject [(''index'', JString ''0'')]) [accepted, accepted])) =
     Inr \<lparr>remaining = Num (- 150), outOf = Num 0\<rparr> \<and>
   fst (getCreditBalance (owner_client ''u1'') (example_world JNull [accepted, accepted])) =
     Inr \<lparr>remaining = Num (- 150), outOf = Num 0\<rparr>"
proof -
  let ?c = "owner_client ''u1''"
  let ?sub = "\<lambda>m. \<lparr>sub_user_id = ''u1'', sub_status = ''active'', price_id = Some ''price1'',
      current_period_start = 100, current_period_end = 200,
      prices_of = Some \<lparr>prices_id = ''price1'', product_id = Some ''prod1'',
         products_of = Some \<lparr>products_id = ''prod1'', metadata = m\<rparr>\<rparr>\<rparr>"
  let ?js = "[example_job ''j1'' ''u1'' 100 (Some 100) False,
              example_job ''j2'' ''u1'' 200 (Some 50) True]"
  have lookup: "getSubscription ?c (example_world m [accepted, accepted]) =
      (Inr (Some (?sub m)),
       \<lparr>db = example_db m, outcomes = [accepted],
        log = [Select_subscriptions [''trialing'', ''active'']]\<rparr>)" for m
    by (simp add: getSubscription_def io_defs store_defs example_defs)
  have no_member: "(case rawMetadata (?sub (JObject [(''index'', JString ''0'')])) of
      None \<Rightarrow> None | Some m \<Rightarrow> property ''credits'' m) \<in> {None, Some JNull}"
    by (simp add: rawMetadata_def)
  have null: "(case rawMetadata (?sub JNull) of
      None \<Rightarrow> None | Some m \<Rightarrow> property ''credits'' m) \<in> {None, Some JNull}"
    by (simp add: rawMetadata_def)
  have jobs: "getJobsBetweenDates ?c (sub_user_id (?sub m)) (current_period_start (?sub m))
        (current_period_end (?sub m))
        \<lparr>db = example_db m, outcomes = [accepted],
         log = [Select_subscriptions [''trialing'', ''active'']]\<rparr> =
      (Inr (Some ?js),
       \<lparr>db = example_db m, outcomes = [],
        log = [Select_subscriptions [''trialing'', ''active''],
               Select_jobs (Of_user_between ''u1'' 100 200)]\<rparr>)" for m
    by (simp add: getJobsBetweenDates_def io_defs store_defs example_defs)
  show ?thesis
    using getCreditBalance_credits_absent [OF lookup no_member jobs]
      getCreditBalance_credits_absent [OF lookup null jobs]
    by (simp add: example_job_def)
qed

section \<open>Jobs without credits\<close>



section \<open>Failures of the queries behind the credit balance\<close>

lemma getCreditBalance_total: "\<exists>b. fst (getCreditBalance c w) = Inr b"
proof -
  consider (free) "fst (getSubscription c w) = Inr None"
    | (sub) sub where "fst (getSubscription c w) = Inr (Some sub)"
    using getSubscription_cases by blast
  then show ?thesis
  proof cases
    case free
    show ?thesis
      using free_tier_002 [OF free] getJobs_cases [of c "snd (getSubscription c w)"]
      by auto
  next
    case sub
    let ?w1 = "snd (getSubscription c w)"
    let ?q = "getJobsBetweenDates c (sub_user_id sub) (current_period_start sub)
           (current_period_end sub) ?w1"
    obtain jo where jo: "fst ?q = Inr jo"
      using getJobsBetweenDates_total by blast
    have 1: "getSubscription c w = (Inr (Some sub), ?w1)"
      using sub by (simp add: prod_eq_iff)
    have 2: "?q = (Inr jo, snd ?q)"
      using jo by (simp add: prod_eq_iff)
    show ?thesis
      using subscribed_002 [OF 1 2] by auto
  qed
qed

lemma lookup_failure_free_tier:
  assumes "outcomes w = Failure e # rest" and "fst (getCreditBalance c w) = Inr b"
  shows "outOf b = Num 7500"
proof -
  have free: "fst (getSubscription c w) = Inr None"
    using assms(1) by (rule getSubscription_failure)
  show ?thesis
    using free_tier_002 [OF free] getJobs_cases [of c "snd (getSubscription c w)"] assms(2)
    by auto
qed

lemma period_query_failure:
  assumes "getSubscription c w = (Inr (Some sub), w1)"
    and "outcomes w1 = Failure e # rest"
    and "fst (getCreditBalance c w) = Inr b"
  shows "remaining b = num_sub (outOf b) (Num 0)"
proof -
  let ?q = "getJobsBetweenDates c (sub_user_id sub) (current_period_start sub)
           (current_period_end sub) w1"
  have "?q = (Inr None, snd ?q)"
    using getJobsBetweenDates_failure [OF assms(2)] by (simp add: prod_eq_iff)
  from subscribed_002 [OF assms(1) this] show ?thesis
    using assms(3) by auto
qed

lemma listing_failure:
  assumes "getSubscription c w = (Inr None, w1)"
    and "outcomes w1 = Failure e # rest"
  shows "fst (getJobs c w1) = Inr \<lparr>success = False, data = None, error = Some e\<rparr> \<and>
         fst (getCreditBalance c w) = Inr \<lparr>remaining = Num 7500, outOf = Num 7500\<rparr>"
proof -
  have free: "fst (getSubscription c w) = Inr None" and w1: "snd (getSubscription c w) = w1"
    using assms(1) by simp_all
  show ?thesis
    using free_tier_002 [OF free] getJobs_failure [OF assms(2)] w1 by simp
qed

text \<open>
  Claim C5. \<open>getCreditBalance\<close> never throws: whatever the store answers, it returns a
  pair \<open>b\<close> of numbers. When the subscription lookup fails, the free-tier branch is
  taken (\<open>outOf = 7500\<close>). When a subscription is found and the in-period job query
  fails, the jobs count as none (\<open>remaining = outOf - 0\<close>). When there is no subscription
  and the listing fails, \<open>getJobs\<close> answers \<open>success = false\<close> and nothing counts as
  spent (\<open>7500\<close> of \<open>7500\<close>).
\<close>

theorem getCreditBalance_never_throws:
  "\<exists>b. fst (getCreditBalance c w) = Inr b \<and>
     (\<forall>e rest. outcomes w = Failure e # rest \<longrightarrow> outOf b = Num 7500) \<and>
     (\<forall>sub w1 e rest. getSubscription c w = (Inr (Some sub), w1) \<and> outcomes w1 = Failure e # rest
        \<longrightarrow> remaining b = num_sub (outOf b) (Num 0)) \<and>
     (\<forall>w1 e rest. getSubscription c w = (Inr None, w1) \<and> outcomes w1 = Failure e # rest
        \<longrightarrow> fst (getJobs c w1) = Inr \<lparr>success = False, data = None, error = Some e\<rparr> \<and>
            b = \<lparr>remaining = Num 7500, outOf = Num 7500\<rparr>)"
proof -
  obtain b where b: "fst (getCreditBalance c w) = Inr b"
    using getCreditBalance_total by blast
  have "\<forall>e rest. outcomes w = Failure e # rest \<longrightarrow> outOf b = Num 7500"
    using lookup_failure_free_tier b by blast
  moreover have "\<forall>sub w1 e rest. getSubscription c w = (Inr (Some sub), w1) \<and>
      outcomes w1 = Failure e # rest \<longrightarrow> remaining b = num_sub (outOf b) (Num 0)"
    using period_query_failure b by blast
  moreover have "\<forall>w1 e rest. getSubscription c w = (Inr None, w1) \<and>
      outcomes w1 = Failure e # rest \<longrightarrow>
        fst (getJobs c w1) = Inr \<lparr>success = False, data = None, error = Some e\<rparr> \<and>
        b = \<lparr>remaining = Num 7500, outOf = Num 7500\<rparr>"
    using listing_failure [of c w] b by auto
  ultimately show ?thesis
    using b by blast
qed

text \<open>
  At the example store: the lookup of \<open>u1\<close> fails and all jobs of \<open>u1\<close> are charged to
  the free tier; the in-period query of \<open>u1\<close> fails; the listing of \<open>u2\<close> fails.
\<close>

theorem getCreditBalance_never_throws_witness:
  "fst (getCreditBalance (owner_client ''u1'')
          (example_world (JObject [(''credits'', JString ''500'')])
             [Failure (PostgrestError ''timeout''), accepted])) =
     Inr \<lparr>remaining = Num 6450, outOf = Num 7500\<rparr> \<and>
   fst (getCreditBalance (owner_client ''u1'')
          (example_world (JObject [(''credits'', JString ''500'')])
             [accepted, Failure (PostgrestError ''timeout'')])) =
     Inr \<lparr>remaining = Num 500, outOf = Num 500\<rparr> \<and>
   fst (getCreditBalance (owner_client ''u2'')
          (example_world (JObject [(''credits'', JString ''500'')])
             [accepted, Failure (PostgrestError ''timeout'')])) =
     Inr \<lparr>remaining = Num 7500, outOf = Num 7500\<rparr>"
proof -
  let ?m = "JObject [(''credits'', JString ''500'')]"
  let ?e = "PostgrestError ''timeout''"
  have 1: "fst (getCreditBalance (owner_client ''u1'') (example_world ?m [Failure ?e, accepted])) =
      Inr \<lparr>remaining = Num 6450, outOf = Num 7500\<rparr>"
    by (simp add: getCreditBalance_def getSubscription_def getJobs_def io_defs store_defs
        example_defs creditsSpent_def credits_or_0_def Let_def)
  have 2: "getSubscription (owner_client ''u1'') (example_world ?m [accepted, Failure ?e]) =
      (Inr (Some \<lparr>sub_user_id = ''u1'', sub_status = ''active'', price_id = Some ''price1'',
          current_period_start = 100, current_period_end = 200,
          prices_of = Some \<lparr>prices_id = ''price1'', product_id = Some ''prod1'',
            products_of = Some \<lparr>products_id = ''prod1'', metadata = ?m\<rparr>\<rparr>\<rparr>),
       \<lparr>db = example_db ?m, outcomes = [Failure ?e],
        log = [Select_subscriptions [''trialing'', ''active'']]\<rparr>)"
    by (simp add: getSubscription_def io_defs store_defs example_defs)
  have 3: "getSubscription (owner_client ''u2'') (example_world ?m [accepted, Failure ?e]) =
      (Inr None,
       \<lparr>db = example_db ?m, outcomes = [Failure ?e],
        log = [Select_subscriptions [''trialing'', ''active'']]\<rparr>)"
    by (simp add: getSubscription_def io_defs store_defs example_defs)
  have out: "fst (getCreditBalance (owner_client ''u1'')
      (example_world ?m [accepted, Failure ?e])) = Inr b \<Longrightarrow> outOf b = Num 500" for b
    by (auto simp add: getCreditBalance_def getSubscription_def getJobsBetweenDates_def io_defs
        store_defs example_defs number_defs rawMetadata_def Let_def)
  have A: "fst (getCreditBalance (owner_client ''u1'') (example_world ?m [accepted, Failure ?e])) =
      Inr \<lparr>remaining = Num 500, outOf = Num 500\<rparr>"
    using getCreditBalance_never_throws [of "owner_client ''u1''"
        "example_world ?m [accepted, Failure ?e]"] 2 out
    by (auto simp: balance.equality)
  have B: "fst (getCreditBalance (owner_client ''u2'') (example_world ?m [accepted, Failure ?e])) =
      Inr \<lparr>remaining = Num 7500, outOf = Num 7500\<rparr>"
    using getCreditBalance_never_throws [of "owner_client ''u2''"
        "example_world ?m [accepted, Failure ?e]"] 3
    by auto
  show ?thesis
    using 1 A B by simp
qed

section \<open>Updating job rows\<close>

text \<open>
  Setting the same fields a second time changes nothing: an assignment made last wins,
  whatever was assigned before.
\<close>

lemma assign_twice:
  "assign (assign j a) b = assign j b \<or> assign (assign j a) b = assign (assign j b) a"
  by (cases a; cases b) simp_all

lemma assign_last: "assign (foldl assign (assign j a) fs) a = assign (foldl assign j fs) a"
proof (induction fs arbitrary: j)
  case Nil
  show ?case by (cases a) simp_all
next
  case (Cons b fs)
  from assign_twice [of j a b] show ?case
  proof
    assume "assign (assign j a) b = assign j b"
    then show ?thesis by simp
  next
    assume "assign (assign j a) b = assign (assign j b) a"
    then show ?thesis using Cons.IH [of "assign j b"] by simp
  qed
qed

lemma set_fields_idem: "set_fields fs (set_fields fs j) = set_fields fs j"
proof (induction fs rule: rev_induct)
  case Nil
  show ?case by (simp add: set_fields_def)
next
  case (snoc a fs)
  have "set_fields (fs @ [a]) (set_fields (fs @ [a]) j) =
          assign (foldl assign (assign (set_fields fs j) a) fs) a"
    by (simp add: set_fields_def)
  also have "\<dots> = assign (foldl assign (set_fields fs j) fs) a"
    by (rule assign_last)
  also have "\<dots> = assign (set_fields fs (set_fields fs j)) a"
    by (simp add: set_fields_def)
  also have "\<dots> = set_fields (fs @ [a]) j"
    by (simp add: snoc.IH) (simp add: set_fields_def)
  finally show ?case .
qed

lemma update_rows_idem:
  "map (\<lambda>j. if P j then set_fields fs j else j) (map (\<lambda>j. if P j then set_fields fs j else j) js) =
   map (\<lambda>j. if P j then set_fields fs j else j) js"
  by (induction js) (simp_all add: set_fields_idem)

lemma update_jobs_accepted:
  assumes "outcomes w = Success d # rest"
  shows "update_jobs c f fs w =
     (Inr (map (set_fields fs) (filter (\<lambda>j. sees_job c j \<and> job_matches f j) (jobs (db w)))),
      w\<lparr>outcomes := rest, log := log w @ [Update_jobs f fs],
        db := (db w)\<lparr>jobs := map (\<lambda>j. if sees_job c j \<and> job_matches f j then set_fields fs j else j)
                                (jobs (db w))\<rparr>\<rparr>)"
  using assms by (simp add: update_jobs_def respond_def)

lemma update_jobs_failed:
  assumes "outcomes w = Failure e # rest"
  shows "update_jobs c f fs w = (Inl e, w\<lparr>outcomes := rest, log := log w @ [Update_jobs f fs]\<rparr>)"
  using assms by (simp add: update_jobs_def respond_def)

lemma update_jobs_db:
  "db (snd (update_jobs c f fs w)) = db w \<or>
   db (snd (update_jobs c f fs w)) =
     (db w)\<lparr>jobs := map (\<lambda>j. if sees_job c j \<and> job_matches f j then set_fields fs j else j)
                       (jobs (db w))\<rparr>"
  by (auto simp: update_jobs_def respond_def split: list.splits outcome.splits)

lemma catch_rows:
  "try_catch (bind q (\<lambda>rows. return rows)) (\<lambda>err. return []) w =
     (case q w of (Inl e, w') \<Rightarrow> (Inr [], w') | (Inr rows, w') \<Rightarrow> (Inr rows, w'))"
  by (simp add: io_defs split: prod.splits sum.splits)

lemma updateJob_world: "snd (updateJob c k fs w) = snd (update_jobs c (Eq_id k) fs w)"
  by (simp add: updateJob_def catch_rows split: prod.splits sum.splits)

section \<open>What the job mutators return\<close>

text \<open>The three updates are one \<open>try\<close> around one query; \<open>insertJob\<close> first looks the user up.\<close>

lemma caught_update_total:
  "\<exists>rows. fst (try_catch (bind (update_jobs c f fs) (\<lambda>rows. return rows)) (\<lambda>err. return []) w)
      = Inr rows"
  by (simp add: catch_rows split: prod.splits sum.splits)

lemma caught_update_failed:
  assumes "outcomes w = Failure e # rest"
  shows "fst (try_catch (bind (update_jobs c f fs) (\<lambda>rows. return rows)) (\<lambda>err. return []) w)
           = Inr [] \<and>
         db (snd (try_catch (bind (update_jobs c f fs) (\<lambda>rows. return rows))
                    (\<lambda>err. return []) w)) = db w"
  by (simp add: catch_rows update_jobs_failed [OF assms])

lemma caught_update_accepted:
  assumes "outcomes w = Success d # rest"
  shows "fst (try_catch (bind (update_jobs c f fs) (\<lambda>rows. return rows)) (\<lambda>err. return []) w)
           = Inr (map (set_fields fs)
                   (filter (\<lambda>j. sees_job c j \<and> job_matches f j) (jobs (db w)))) \<and>
         jobs (db (snd (try_catch (bind (update_jobs c f fs) (\<lambda>rows. return rows))
                    (\<lambda>err. return []) w))) =
           map (\<lambda>j. if sees_job c j \<and> job_matches f j then set_fields fs j else j) (jobs (db w))"
  by (simp add: catch_rows update_jobs_accepted [OF assms])

lemma caught_update_no_match:
  assumes "\<forall>j\<in>set (jobs (db w)). \<not> (sees_job c j \<and> job_matches f j)"
  shows "fst (try_catch (bind (update_jobs c f fs) (\<lambda>rows. return rows)) (\<lambda>err. return []) w)
           = Inr [] \<and>
         db (snd (try_catch (bind (update_jobs c f fs) (\<lambda>rows. return rows))
                    (\<lambda>err. return []) w)) = db w"
proof -
  have none: "filter (\<lambda>j. sees_job c j \<and> job_matches f j) (jobs (db w)) = []"
    using assms by (simp add: filter_empty_conv)
  have same: "map (\<lambda>j. if sees_job c j \<and> job_matches f j then set_fields fs j else j)
                (jobs (db w)) = jobs (db w)"
    using assms by (intro map_idI) auto
  show ?thesis
    by (simp add: catch_rows update_jobs_def respond_def none same
        split: list.splits outcome.splits)
qed

lemma getUserDetails_total: "\<exists>user. fst (getUserDetails c w) = Inr user"
  by (auto simp: getUserDetails_def io_defs select_users_def
      split: prod.splits sum.splits outcome.splits list.splits)

lemma getUserDetails_world: "snd (getUserDetails c w) = snd (respond Select_users w)"
  by (auto simp: getUserDetails_def io_defs select_users_def
      split: prod.splits sum.splits outcome.splits list.splits)

lemma insertJob_run:
  assumes "fst (getUserDetails c w) = Inr user"
  shows "insertJob c w =
     (case insert_job c \<lparr>payload_user_id = map_option users_id user, payload_status = ''pending''\<rparr>
             (snd (respond Select_users w)) of
        (Inl e, w') \<Rightarrow> (Inr [], w')
      | (Inr rows, w') \<Rightarrow> (Inr rows, w'))"
proof -
  have "getUserDetails c w = (Inr user, snd (respond Select_users w))"
    using assms getUserDetails_world [of c w] by (simp add: prod_eq_iff)
  then show ?thesis
    by (simp add: insertJob_def bind_def [of "getUserDetails c"] Let_def catch_rows)
qed

lemma insert_job_failed:
  assumes "outcomes w = Failure e # rest"
  shows "insert_job c p w = (Inl e, w\<lparr>outcomes := rest, log := log w @ [Insert_job p]\<rparr>)"
  using assms by (simp add: insert_job_def respond_def)

lemma insert_job_accepted:
  assumes "outcomes w = Success d # rest"
  shows "insert_job c p w =
     (Inr [new_row p d],
      w\<lparr>outcomes := rest, log := log w @ [Insert_job p],
        db := (db w)\<lparr>jobs := jobs (db w) @ [new_row p d]\<rparr>\<rparr>)"
  using assms by (simp add: insert_job_def respond_def)

lemma insertJob_total: "\<exists>rows. fst (insertJob c w) = Inr rows"
proof -
  obtain user where "fst (getUserDetails c w) = Inr user"
    using getUserDetails_total by blast
  from insertJob_run [OF this] show ?thesis
    by (simp split: prod.splits sum.splits)
qed

lemma insertJob_failed:
  assumes "outcomes w = x # Failure e # rest"
  shows "fst (insertJob c w) = Inr [] \<and> db (snd (insertJob c w)) = db w"
proof -
  obtain user where user: "fst (getUserDetails c w) = Inr user"
    using getUserDetails_total by blast
  have next_answer: "outcomes (snd (respond Select_users w)) = Failure e # rest"
    using assms by (simp add: respond_outcomes)
  show ?thesis
    by (simp add: insertJob_run [OF user] insert_job_failed [OF next_answer] respond_db)
qed

lemma insertJob_accepted:
  assumes "outcomes w = x # Success d # rest"
  shows "\<exists>row. fst (insertJob c w) = Inr [row] \<and>
           jobs (db (snd (insertJob c w))) = jobs (db w) @ [row] \<and> status row = ''pending''"
proof -
  obtain user where user: "fst (getUserDetails c w) = Inr user"
    using getUserDetails_total by blast
  have next_answer: "outcomes (snd (respond Select_users w)) = Success d # rest"
    using assms by (simp add: respond_outcomes)
  show ?thesis
    by (simp add: insertJob_run [OF user] insert_job_accepted [OF next_answer] respond_db
        new_row_def)
qed

text \<open>
  Claim C6. The four job mutators never throw: each returns a list of rows. When the
  mutating query fails they return the empty list and the tables are as before. When the
  store accepts, an update returns the rows it has set the fields of (the rows that the
  credential admits and that match the id, the URL or the transcription id), and these
  are the only rows of the table that change; \<open>insertJob\<close> returns the one row it has
  added, which is pending. \<open>updateJobByTranscriptionId\<close> with a transcription id that no
  row has returns the empty list and changes nothing, whatever the store answers.
\<close>

theorem job_mutators_return_rows:
  "((\<exists>rows. fst (insertJob c w) = Inr rows) \<and>
    (\<exists>rows. fst (updateJob c k fs w) = Inr rows) \<and>
    (\<exists>rows. fst (updateJobByOriginalVideoUrl c u fs w) = Inr rows) \<and>
    (\<exists>rows. fst (updateJobByTranscriptionId t fs w) = Inr rows)) \<and>
   (\<forall>e rest. outcomes w = Failure e # rest \<longrightarrow>
      fst (updateJob c k fs w) = Inr [] \<and> db (snd (updateJob c k fs w)) = db w \<and>
      fst (updateJobByOriginalVideoUrl c u fs w) = Inr [] \<and>
      db (snd (updateJobByOriginalVideoUrl c u fs w)) = db w \<and>
      fst (updateJobByTranscriptionId t fs w) = Inr [] \<and>
      db (snd (updateJobByTranscriptionId t fs w)) = db w) \<and>
   (\<forall>x e rest. outcomes w = x # Failure e # rest \<longrightarrow>
      fst (insertJob c w) = Inr [] \<and> db (snd (insertJob c w)) = db w) \<and>
   (\<forall>d rest. outcomes w = Success d # rest \<longrightarrow>
      fst (updateJob c k fs w) =
        Inr (map (set_fields fs) (filter (\<lambda>j. sees_job c j \<and> job_id j = k) (jobs (db w)))) \<and>
      jobs (db (snd (updateJob c k fs w))) =
        map (\<lambda>j. if sees_job c j \<and> job_id j = k then set_fields fs j else j) (jobs (db w)) \<and>
      fst (updateJobByOriginalVideoUrl c u fs w) =
        Inr (map (set_fields fs)
              (filter (\<lambda>j. sees_job c j \<and> original_video_url j = Some u) (jobs (db w)))) \<and>
      jobs (db (snd (updateJobByOriginalVideoUrl c u fs w))) =
        map (\<lambda>j. if sees_job c j \<and> original_video_url j = Some u then set_fields fs j else j)
          (jobs (db w)) \<and>
      fst (updateJobByTranscriptionId t fs w) =
        Inr (map (set_fields fs) (filter (\<lambda>j. transcription_id j = Some t) (jobs (db w)))) \<and>
      jobs (db (snd (updateJobByTranscriptionId t fs w))) =
        map (\<lambda>j. if transcription_id j = Some t then set_fields fs j else j) (jobs (db w))) \<and>
   (\<forall>x d rest. outcomes w = x # Success d # rest \<longrightarrow>
      (\<exists>row. fst (insertJob c w) = Inr [row] \<and>
         jobs (db (snd (insertJob c w))) = jobs (db w) @ [row] \<and> status row = ''pending'')) \<and>
   ((\<forall>j\<in>set (jobs (db w)). transcription_id j \<noteq> Some t) \<longrightarrow>
      fst (updateJobByTranscriptionId t fs w) = Inr [] \<and>
      db (snd (updateJobByTranscriptionId t fs w)) = db w)"
proof -
  have total: "(\<exists>rows. fst (insertJob c w) = Inr rows) \<and>
    (\<exists>rows. fst (updateJob c k fs w) = Inr rows) \<and>
    (\<exists>rows. fst (updateJobByOriginalVideoUrl c u fs w) = Inr rows) \<and>
    (\<exists>rows. fst (updateJobByTranscriptionId t fs w) = Inr rows)"
    unfolding updateJob_def updateJobByOriginalVideoUrl_def updateJobByTranscriptionId_def
    using insertJob_total caught_update_total by blast
  have failed: "fst (updateJob c k fs w) = Inr [] \<and> db (snd (updateJob c k fs w)) = db w \<and>
      fst (updateJobByOriginalVideoUrl c u fs w) = Inr [] \<and>
      db (snd (updateJobByOriginalVideoUrl c u fs w)) = db w \<and>
      fst (updateJobByTranscriptionId t fs w) = Inr [] \<and>
      db (snd (updateJobByTranscriptionId t fs w)) = db w"
    if "outcomes w = Failure e # rest" for e rest
    unfolding updateJob_def updateJobByOriginalVideoUrl_def updateJobByTranscriptionId_def
    using caught_update_failed [OF that] by blast
  have accepted: "fst (updateJob c k fs w) =
        Inr (map (set_fields fs) (filter (\<lambda>j. sees_job c j \<and> job_id j = k) (jobs (db w)))) \<and>
      jobs (db (snd (updateJob c k fs w))) =
        map (\<lambda>j. if sees_job c j \<and> job_id j = k then set_fields fs j else j) (jobs (db w)) \<and>
      fst (updateJobByOriginalVideoUrl c u fs w) =
        Inr (map (set_fields fs)
              (filter (\<lambda>j. sees_job c j \<and> original_video_url j = Some u) (jobs (db w)))) \<and>
      jobs (db (snd (updateJobByOriginalVideoUrl c u fs w))) =
        map (\<lambda>j. if sees_job c j \<and> original_video_url j = Some u then set_fields fs j else j)
          (jobs (db w)) \<and>
      fst (updateJobByTranscriptionId t fs w) =
        Inr (map (set_fields fs) (filter (\<lambda>j. transcription_id j = Some t) (jobs (db w)))) \<and>
      jobs (db (snd (updateJobByTranscriptionId t fs w))) =
        map (\<lambda>j. if transcription_id j = Some t then set_fields fs j else j) (jobs (db w))"
    if "outcomes w = Success d # rest" for d rest
    using caught_update_accepted [OF that, of c "Eq_id k" fs]
      caught_update_accepted [OF that, of c "Eq_original_video_url u" fs]
      caught_update_accepted [OF that, of supabaseService "Eq_transcription_id t" fs]
    by (simp add: updateJob_def updateJobByOriginalVideoUrl_def updateJobByTranscriptionId_def
        supabaseService_def)
  have no_match: "fst (updateJobByTranscriptionId t fs w) = Inr [] \<and>
      db (snd (updateJobByTranscriptionId t fs w)) = db w"
    if "\<forall>j\<in>set (jobs (db w)). transcription_id j \<noteq> Some t"
    unfolding updateJobByTranscriptionId_def
    using that by (intro caught_update_no_match) simp
  show ?thesis
    using total failed accepted no_match insertJob_failed [of w _ _ _ c]
      insertJob_accepted [of w _ _ _ c]
    by blast
qed

text \<open>
  At the example store: an update by a transcription id that no row has; an update that
  the store rejects; an update of the job \<open>j1\<close>; an insert by the user \<open>u1\<close>.
\<close>

theorem job_mutators_return_rows_witness:
  "fst (updateJobByTranscriptionId ''t404'' [Set_status ''done''] (example_world JNull [accepted]))
     = Inr [] \<and>
   db (snd (updateJobByTranscriptionId ''t404'' [Set_status ''done''] (example_world JNull [accepted])))
     = example_db JNull \<and>
   fst (updateJob (owner_client ''u1'') ''j1'' [Set_status ''failed'']
          (example_world JNull [Failure (PostgrestError ''timeout'')])) = Inr [] \<and>
   fst (updateJob (owner_client ''u1'') ''j1'' [Set_status ''failed'', Set_credits (Some 7)]
          (example_world JNull [accepted])) =
     Inr [\<lparr>job_id = ''j1'', user_id = Some ''u1'', status = ''failed'', created_at = 100,
           credits = Some 7, is_deleted = False, original_video_url = None,
           transcription_id = None\<rparr>] \<and>
   fst (insertJob (owner_client ''u1'') (example_world JNull [accepted, accepted])) =
     Inr [\<lparr>job_id = ''j9'', user_id = Some ''u1'', status = ''pending'', created_at = 500,
           credits = None, is_deleted = False, original_video_url = None,
           transcription_id = None\<rparr>]"
proof -
  let ?c = "owner_client ''u1''"
  have no_row: "\<forall>j\<in>set (jobs (db (example_world JNull [accepted]))). transcription_id j \<noteq> Some ''t404''"
    by (simp add: example_defs)
  have 1: "fst (updateJobByTranscriptionId ''t404'' [Set_status ''done'']
              (example_world JNull [accepted])) = Inr [] \<and>
           db (snd (updateJobByTranscriptionId ''t404'' [Set_status ''done'']
              (example_world JNull [accepted]))) = example_db JNull"
    using job_mutators_return_rows [of ?c "example_world JNull [accepted]" "''j1''"
        "[Set_status ''done'']" "''url''" "''t404''"] no_row
    by (simp add: example_world_def)
  have 2: "fst (updateJob ?c ''j1'' [Set_status ''failed'']
              (example_world JNull [Failure (PostgrestError ''timeout'')])) = Inr []"
    using job_mutators_return_rows [of ?c
        "example_world JNull [Failure (PostgrestError ''timeout'')]" "''j1''"
        "[Set_status ''failed'']" "''url''" "''t404''"]
    by (simp add: example_world_def)
  have 3: "fst (updateJob ?c ''j1'' [Set_status ''failed'', Set_credits (Some 7)]
              (example_world JNull [accepted])) =
     Inr [\<lparr>job_id = ''j1'', user_id = Some ''u1'', status = ''failed'', created_at = 100,
           credits = Some 7, is_deleted = False, original_video_url = None,
           transcription_id = None\<rparr>]"
    using job_mutators_return_rows [of ?c "example_world JNull [accepted]" "''j1''"
        "[Set_status ''failed'', Set_credits (Some 7)]" "''url''" "''t404''"]
    by (simp add: example_defs set_fields_def)
  have 4: "fst (insertJob ?c (example_world JNull [accepted, accepted])) =
     Inr [\<lparr>job_id = ''j9'', user_id = Some ''u1'', status = ''pending'', created_at = 500,
           credits = None, is_deleted = False, original_video_url = None,
           transcription_id = None\<rparr>]"
    by (simp add: insertJob_def getUserDetails_def io_defs store_defs example_defs Let_def)
  show ?thesis
    using 1 2 3 4 by simp
qed

section \<open>Updating by id twice\<close>

text \<open>
  Claim C7. \<open>updateJob\<close> is idempotent. When the store accepts a call, a second call with
  the same id and the same fields leaves the tables as the first call left them, whatever
  the store answers the second time. A call that the store rejects changes nothing, so
  after one call and after two calls alike the tables are either untouched or those of
  one update.
\<close>

theorem updateJob_idempotent:
  "(\<forall>d rest. outcomes w = Success d # rest \<longrightarrow>
      db (snd (updateJob c k fs (snd (updateJob c k fs w)))) = db (snd (updateJob c k fs w))) \<and>
   (db (snd (updateJob c k fs w)) = db w \<or>
    db (snd (updateJob c k fs w)) =
      (db w)\<lparr>jobs := map (\<lambda>j. if sees_job c j \<and> job_id j = k then set_fields fs j else j)
                        (jobs (db w))\<rparr>) \<and>
   (db (snd (updateJob c k fs (snd (updateJob c k fs w)))) = db w \<or>
    db (snd (updateJob c k fs (snd (updateJob c k fs w)))) =
      (db w)\<lparr>jobs := map (\<lambda>j. if sees_job c j \<and> job_id j = k then set_fields fs j else j)
                        (jobs (db w))\<rparr>)"
proof -
  let ?u = "\<lambda>j. if sees_job c j \<and> job_matches (Eq_id k) j then set_fields fs j else j"
  let ?once = "(db w)\<lparr>jobs := map ?u (jobs (db w))\<rparr>"
  let ?w1 = "snd (update_jobs c (Eq_id k) fs w)"
  let ?w2 = "snd (update_jobs c (Eq_id k) fs ?w1)"
  have "map ?u (map ?u (jobs (db w))) = map ?u (jobs (db w))"
    by (rule update_rows_idem)
  then have again: "?once\<lparr>jobs := map ?u (jobs ?once)\<rparr> = ?once"
    by simp
  have first: "db ?w1 = db w \<or> db ?w1 = ?once"
    by (rule update_jobs_db)
  have second: "db ?w2 = db ?w1 \<or> db ?w2 = (db ?w1)\<lparr>jobs := map ?u (jobs (db ?w1))\<rparr>"
    by (rule update_jobs_db)
  have reach: "db ?w2 = db w \<or> db ?w2 = ?once"
    using first second again by auto
  have same: "db ?w2 = db ?w1" if "outcomes w = Success d # rest" for d rest
  proof -
    have "db ?w1 = ?once"
      using update_jobs_accepted [OF that] by simp
    then show ?thesis
      using second again by auto
  qed
  show ?thesis
    using first reach same by (simp add: updateJob_world)
qed

text \<open>
  At the example store, with fields that change the id itself: the second call finds no
  row \<open>j1\<close> any more and the jobs stay as the first call left them.
\<close>

theorem updateJob_idempotent_witness:
  "jobs (db (snd (updateJob (owner_client ''u1'') ''j1'' [Set_id ''j1b'', Set_credits (Some 7)]
       (snd (updateJob (owner_client ''u1'') ''j1'' [Set_id ''j1b'', Set_credits (Some 7)]
          (example_world JNull [accepted, accepted])))))) =
   jobs (db (snd (updateJob (owner_client ''u1'') ''j1'' [Set_id ''j1b'', Set_credits (Some 7)]
       (example_world JNull [accepted, accepted])))) \<and>
   hd (jobs (db (snd (updateJob (owner_client ''u1'') ''j1'' [Set_id ''j1b'', Set_credits (Some 7)]
       (example_world JNull [accepted, accepted]))))) =
     \<lparr>job_id = ''j1b'', user_id = Some ''u1'', status = ''done'', created_at = 100,
      credits = Some 7, is_deleted = False, original_video_url = None,
      transcription_id = None\<rparr>"
proof -
  have first: "hd (jobs (db (snd (updateJob (owner_client ''u1'') ''j1''
       [Set_id ''j1b'', Set_credits (Some 7)] (example_world JNull [accepted, accepted]))))) =
     \<lparr>job_id = ''j1b'', user_id = Some ''u1'', status = ''done'', created_at = 100,
      credits = Some 7, is_deleted = False, original_video_url = None,
      transcription_id = None\<rparr>"
    by (simp add: updateJob_def io_defs store_defs example_defs set_fields_def)
  have "outcomes (example_world JNull [accepted, accepted]) = Success column_defaults # [accepted]"
    by (simp add: example_world_def accepted_def)
  then show ?thesis
    using updateJob_idempotent [of "example_world JNull [accepted, accepted]"
        "owner_client ''u1''" "''j1''" "[Set_id ''j1b'', Set_credits (Some 7)]"] first
    by simp
qed

section \<open>The credit balance only reads\<close>

lemma getCreditBalance_world:
  "\<exists>r. is_select r \<and>
     snd (getCreditBalance c w) =
       snd (respond r (snd (respond (Select_subscriptions [''trialing'', ''active'']) w)))"
proof -
  let ?w1 = "snd (getSubscription c w)"
  consider (free) "fst (getSubscription c w) = Inr None"
    | (sub) sub where "fst (getSubscription c w) = Inr (Some sub)"
    using getSubscription_cases by blast
  then show ?thesis
  proof cases
    case free
    have "snd (getCreditBalance c w) = snd (respond (Select_jobs Every_job) ?w1)"
      using free_tier_002 [OF free] by (simp add: getJobs_world)
    then show ?thesis
      using getSubscription_world [of c w] is_select.simps(3) by metis
  next
    case sub
    let ?q = "getJobsBetweenDates c (sub_user_id sub) (current_period_start sub)
           (current_period_end sub) ?w1"
    obtain jo where jo: "fst ?q = Inr jo"
      using getJobsBetweenDates_total by blast
    have 1: "getSubscription c w = (Inr (Some sub), ?w1)"
      using sub by (simp add: prod_eq_iff)
    have 2: "?q = (Inr jo, snd ?q)"
      using jo by (simp add: prod_eq_iff)
    have "snd (getCreditBalance c w) = snd ?q"
      using subscribed_002 [OF 1 2] by auto
    then have "snd (getCreditBalance c w) =
        snd (respond (Select_jobs (Of_user_between (sub_user_id sub) (current_period_start sub)
           (current_period_end sub))) ?w1)"
      by (simp add: getJobsBetweenDates_world)
    then show ?thesis
      using getSubscription_world [of c w] is_select.simps(3) by metis
  qed
qed

text \<open>
  Claim C8. \<open>getCreditBalance\<close> is read-only: from every starting state it leaves the
  users, subscriptions, products, prices and jobs as they were, and every request it
  sends is a select (no insert, no update, no delete).
\<close>

theorem getCreditBalance_read_only:
  "users (db (snd (getCreditBalance c w))) = users (db w) \<and>
   subscriptions (db (snd (getCreditBalance c w))) = subscriptions (db w) \<and>
   products (db (snd (getCreditBalance c w))) = products (db w) \<and>
   prices (db (snd (getCreditBalance c w))) = prices (db w) \<and>
   jobs (db (snd (getCreditBalance c w))) = jobs (db w) \<and>
   (\<exists>rs. log (snd (getCreditBalance c w)) = log w @ rs \<and> list_all is_select rs)"
proof -
  obtain r where r: "is_select r"
    and w': "snd (getCreditBalance c w) =
       snd (respond r (snd (respond (Select_subscriptions [''trialing'', ''active'']) w)))"
    using getCreditBalance_world by blast
  have "db (snd (getCreditBalance c w)) = db w"
    by (simp add: w' respond_db)
  moreover have "log (snd (getCreditBalance c w)) =
      log w @ [Select_subscriptions [''trialing'', ''active''], r]"
    by (simp add: w' respond_log)
  moreover have "list_all is_select [Select_subscriptions [''trialing'', ''active''], r]"
    using r by simp
  ultimately show ?thesis
    by metis
qed

text \<open>At the example store: two selects, and the tables of the start.\<close>

theorem getCreditBalance_read_only_witness:
  "db (snd (getCreditBalance (owner_client ''u1'')
        (example_world (JObject [(''credits'', JString ''500'')]) [accepted, accepted]))) =
     example_db (JObject [(''credits'', JString ''500'')]) \<and>
   log (snd (getCreditBalance (owner_client ''u1'')
        (example_world (JObject [(''credits'', JString ''500'')]) [accepted, accepted]))) =
     [Select_subscriptions [''trialing'', ''active''],
      Select_jobs (Of_user_between ''u1'' 100 200)]"
proof -
  let ?w = "example_world (JObject [(''credits'', JString ''500'')]) [accepted, accepted]"
  have log: "log (snd (getCreditBalance (owner_client ''u1'') ?w)) =
     [Select_subscriptions [''trialing'', ''active''],
      Select_jobs (Of_user_between ''u1'' 100 200)]"
    by (simp add: getCreditBalance_def getSubscription_def getJobsBetweenDates_def io_defs
        store_defs example_defs Let_def)
  have "db ?w = example_db (JObject [(''credits'', JString ''500'')])"
    by (simp add: example_world_def)
  then show ?thesis
    using getCreditBalance_read_only [of "owner_client ''u1''" ?w] log
    by (simp add: database.equality)
qed

section \<open>The callback redirects when the exchange returns\<close>

lemma GET_no_code:
  assumes "map_of (searchParams request) ''code'' = None \<or>
           map_of (searchParams request) ''code'' = Some []"
  shows "GET c request w = (Inr (Redirect (origin request @ ''/subscription'')), w)"
  using assms by (auto simp: GET_def bind_def return_def)

lemma GET_code:
  assumes "map_of (searchParams request) ''code'' = Some v" and "v \<noteq> []"
  shows "GET c request w =
     (case exchangeCodeForSession c v w of
        (Inl e, w') \<Rightarrow> (Inl e, w')
      | (Inr r, w') \<Rightarrow> (Inr (Redirect (origin request @ ''/subscription'')), w'))"
  using assms by (simp add: GET_def bind_def return_def split: prod.splits sum.splits)

lemma exchange_without_verifier:
  assumes "code_verifier c = None"
  shows "\<exists>r. exchangeCodeForSession c v w = (Inr r, w)"
  using assms by (simp add: exchangeCodeForSession_def)

lemma exchange_world:
  assumes "code_verifier c = Some verifier"
  shows "snd (exchangeCodeForSession c v w) = snd (respond (Exchange_code v) w)"
  using assms
  by (simp add: exchangeCodeForSession_def split: prod.splits outcome.splits option.splits)

lemma exchange_answer:
  assumes "code_verifier c = Some verifier" and "outcomes w = x # rest"
  shows "fst (exchangeCodeForSession c v w) =
     (case x of
        Success d \<Rightarrow> Inr (Inr ())
      | Failure e \<Rightarrow> (case as_AuthError e of Some auth \<Rightarrow> Inr (Inl auth) | None \<Rightarrow> Inl e))"
  using assms
  by (simp add: exchangeCodeForSession_def respond_def split: outcome.splits option.splits)

text \<open>
  Claim C9 says that the handler redirects for every request, whatever the outcome. The
  handler has no \<open>try\<close>: when the exchange call throws, the handler throws and answers
  with no redirect. Here the request carries a code, the cookies hold a verifier, and
  the exchange ends with an error that is no auth error.
\<close>

theorem GET_exchange_throws_counterexample:
  "fst (GET (callback_client (Some ''verifier''))
          \<lparr>origin = ''https://app.example'', searchParams = [(''code'', ''c0de'')]\<rparr>
          (example_world JNull [Failure (TypeError ''Cannot read properties of undefined'')])) =
     Inl (TypeError ''Cannot read properties of undefined'') \<and>
   fst (GET (callback_client (Some ''verifier''))
          \<lparr>origin = ''https://app.example'', searchParams = [(''code'', ''c0de'')]\<rparr>
          (example_world JNull [Failure (TypeError ''Cannot read properties of undefined'')])) \<noteq>
     Inr (Redirect ''https://app.example/subscription'')"
  by (simp add: GET_def bind_def return_def exchangeCodeForSession_def respond_def
      callback_client_def example_world_def)

text \<open>
  Claim C9, amended. The callback handler redirects to the request's origin followed by
  the fixed path \<open>/subscription\<close> whenever the exchange call returns. Without a \<open>code\<close>
  parameter (or with an empty one) no exchange is attempted and the redirect is issued.
  With a code the exchange is called and its result is not inspected: whatever pair it
  returns, also one that reports an auth error or a failed request, the same redirect is
  issued, with no error indicator. When the cookies hold no code verifier the call sends
  nothing; when they hold one it sends the exchange once. Only when the exchange call
  throws (an error that is no auth error) does the handler throw that error instead of
  redirecting.
\<close>

theorem GET_redirects_when_exchange_returns:
  "(map_of (searchParams request) ''code'' = None \<or>
    map_of (searchParams request) ''code'' = Some [] \<longrightarrow>
      GET c request w = (Inr (Redirect (origin request @ ''/subscription'')), w)) \<and>
   (\<forall>v. map_of (searchParams request) ''code'' = Some v \<and> v \<noteq> [] \<longrightarrow>
      (\<forall>r. fst (exchangeCodeForSession c v w) = Inr r \<longrightarrow>
         fst (GET c request w) = Inr (Redirect (origin request @ ''/subscription''))) \<and>
      (\<forall>e. fst (exchangeCodeForSession c v w) = Inl e \<longrightarrow> fst (GET c request w) = Inl e) \<and>
      (code_verifier c = None \<longrightarrow>
         GET c request w = (Inr (Redirect (origin request @ ''/subscription'')), w)) \<and>
      (\<forall>verifier. code_verifier c = Some verifier \<longrightarrow>
         log (snd (GET c request w)) = log w @ [Exchange_code v] \<and>
         (\<forall>d rest. outcomes w = Success d # rest \<longrightarrow>
            fst (GET c request w) = Inr (Redirect (origin request @ ''/subscription''))) \<and>
         (\<forall>e auth rest. outcomes w = Failure e # rest \<and> as_AuthError e = Some auth \<longrightarrow>
            fst (exchangeCodeForSession c v w) = Inr (Inl auth) \<and>
            fst (GET c request w) = Inr (Redirect (origin request @ ''/subscription''))) \<and>
         (\<forall>e rest. outcomes w = Failure e # rest \<and> as_AuthError e = None \<longrightarrow>
            fst (GET c request w) = Inl e)))"
proof -
  let ?to = "Redirect (origin request @ ''/subscription'')"
  have absent: "GET c request w = (Inr ?to, w)"
    if "map_of (searchParams request) ''code'' = None \<or>
        map_of (searchParams request) ''code'' = Some []"
    using that by (rule GET_no_code)
  have present: "(\<forall>r. fst (exchangeCodeForSession c v w) = Inr r \<longrightarrow> fst (GET c request w) = Inr ?to) \<and>
      (\<forall>e. fst (exchangeCodeForSession c v w) = Inl e \<longrightarrow> fst (GET c request w) = Inl e) \<and>
      (code_verifier c = None \<longrightarrow> GET c request w = (Inr ?to, w)) \<and>
      (\<forall>verifier. code_verifier c = Some verifier \<longrightarrow>
         log (snd (GET c request w)) = log w @ [Exchange_code v] \<and>
         (\<forall>d rest. outcomes w = Success d # rest \<longrightarrow> fst (GET c request w) = Inr ?to) \<and>
         (\<forall>e auth rest. outcomes w = Failure e # rest \<and> as_AuthError e = Some auth \<longrightarrow>
            fst (exchangeCodeForSession c v w) = Inr (Inl auth) \<and> fst (GET c request w) = Inr ?to) \<and>
         (\<forall>e rest. outcomes w = Failure e # rest \<and> as_AuthError e = None \<longrightarrow>
            fst (GET c request w) = Inl e))"
    if code: "map_of (searchParams request) ''code'' = Some v" "v \<noteq> []" for v
  proof -
    note run = GET_code [OF code, of c w]
    have returns: "fst (GET c request w) = Inr ?to"
      if "fst (exchangeCodeForSession c v w) = Inr r" for r
      using that run by (cases "exchangeCodeForSession c v w") simp
    have throws: "fst (GET c request w) = Inl e"
      if "fst (exchangeCodeForSession c v w) = Inl e" for e
      using that run by (cases "exchangeCodeForSession c v w") simp
    have silent: "GET c request w = (Inr ?to, w)" if "code_verifier c = None"
      using exchange_without_verifier [OF that, of v w] run by auto
    have sent: "log (snd (GET c request w)) = log w @ [Exchange_code v]"
      if "code_verifier c = Some verifier" for verifier
    proof -
      have "snd (GET c request w) = snd (exchangeCodeForSession c v w)"
        using run by (simp split: prod.splits sum.splits)
      then show ?thesis
        by (simp add: exchange_world [OF that] respond_log)
    qed
    have accepted: "fst (GET c request w) = Inr ?to"
      if "code_verifier c = Some verifier" "outcomes w = Success d # rest" for verifier d rest
      using exchange_answer [OF that, of v] returns by simp
    have reported: "fst (exchangeCodeForSession c v w) = Inr (Inl auth) \<and>
        fst (GET c request w) = Inr ?to"
      if "code_verifier c = Some verifier" "outcomes w = Failure e # rest"
        "as_AuthError e = Some auth" for verifier e auth rest
      using exchange_answer [OF that(1,2), of v] that(3) returns by simp
    have thrown: "fst (GET c request w) = Inl e"
      if "code_verifier c = Some verifier" "outcomes w = Failure e # rest"
        "as_AuthError e = None" for verifier e rest
      using exchange_answer [OF that(1,2), of v] that(3) throws by simp
    show ?thesis
      using returns throws silent sent accepted reported thrown by blast
  qed
  show ?thesis
    using absent present by blast
qed

text \<open>
  A request without a code; a request whose exchange fails with an auth error; a request
  with a code whose cookies hold no verifier.
\<close>

theorem GET_redirects_when_exchange_returns_witness:
  "GET (callback_client (Some ''verifier''))
     \<lparr>origin = ''https://app.example'', searchParams = []\<rparr> (example_world JNull []) =
     (Inr (Redirect ''https://app.example/subscription''), example_world JNull []) \<and>
   fst (GET (callback_client (Some ''verifier''))
          \<lparr>origin = ''https://app.example'', searchParams = [(''code'', ''c0de'')]\<rparr>
          (example_world JNull [Failure (AuthError ''invalid grant'')])) =
     Inr (Redirect ''https://app.example/subscription'') \<and>
   log (snd (GET (callback_client (Some ''verifier''))
          \<lparr>origin = ''https://app.example'', searchParams = [(''code'', ''c0de'')]\<rparr>
          (example_world JNull [Failure (AuthError ''invalid grant'')]))) =
     [Exchange_code ''c0de''] \<and>
   GET (callback_client None)
     \<lparr>origin = ''https://app.example'', searchParams = [(''code'', ''c0de'')]\<rparr>
     (example_world JNull [accepted]) =
     (Inr (Redirect ''https://app.example/subscription''), example_world JNull [accepted])"
proof -
  let ?r0 = "\<lparr>origin = ''https://app.example'', searchParams = []\<rparr>"
  let ?r1 = "\<lparr>origin = ''https://app.example'', searchParams = [(''code'', ''c0de'')]\<rparr>"
  let ?w1 = "example_world JNull [Failure (AuthError ''invalid grant'')]"
  have a: "GET (callback_client (Some ''verifier'')) ?r0 (example_world JNull []) =
      (Inr (Redirect ''https://app.example/subscription''), example_world JNull [])"
    using GET_redirects_when_exchange_returns
      [of ?r0 "callback_client (Some ''verifier'')" "example_world JNull []"]
    by simp
  have b: "fst (GET (callback_client (Some ''verifier'')) ?r1 ?w1) =
        Inr (Redirect ''https://app.example/subscription'') \<and>
      log (snd (GET (callback_client (Some ''verifier'')) ?r1 ?w1)) = [Exchange_code ''c0de'']"
    using GET_redirects_when_exchange_returns [of ?r1 "callback_client (Some ''verifier'')" ?w1]
    by (simp add: callback_client_def example_world_def)
  have c: "GET (callback_client None) ?r1 (example_world JNull [accepted]) =
      (Inr (Redirect ''https://app.example/subscription''), example_world JNull [accepted])"
    using GET_redirects_when_exchange_returns
      [of ?r1 "callback_client None" "example_world JNull [accepted]"]
    by (simp add: callback_client_def)
  show ?thesis
    using a b c by simp
qed

section \<open>Inserting a job without a user row\<close>

lemma insertJob_001_run:
  assumes "fst (getUserDetails c w) = Inr user"
  shows "insertJob_001 c w =
     (case insert_job c \<lparr>payload_user_id = map_option users_id user, payload_status = ''pending''\<rparr>
             (snd (respond Select_users w)) of
        (Inl e, w') \<Rightarrow> (Inr [], w')
      | (Inr rows, w') \<Rightarrow> (Inr rows, w'))"
proof -
  have "getUserDetails_001 c w = (Inr user, snd (respond Select_users w))"
    using assms getUserDetails_world [of c w]
    by (simp add: getUserDetails_001_eq prod_eq_iff)
  then show ?thesis
    by (simp add: insertJob_001_def bind_def [of "getUserDetails_001 c"] Let_def)
       (simp add: io_defs split: prod.splits sum.splits)
qed

lemma insert_job_log: "log (snd (insert_job c p w)) = log w @ [Insert_job p]"
  by (simp add: insert_job_def respond_def split: list.splits outcome.splits)

text \<open>
  Claim C10. When \<open>getUserDetails\<close> returns \<open>null\<close>, \<open>insertJob\<close> does not stop: after
  the user lookup it sends the insert, with the payload's \<open>user_id\<close> undefined and the
  status pending. So the call is no guaranteed no-op: when the store accepts the insert,
  the row (the store's defaults, pending) is added to the jobs and returned. Both copies
  of the module agree.
\<close>

theorem insertJob_without_user:
  assumes "fst (getUserDetails c w) = Inr None"
  shows "log (snd (insertJob c w)) =
           log w @ [Select_users, Insert_job \<lparr>payload_user_id = None, payload_status = ''pending''\<rparr>] \<and>
         log (snd (insertJob_001 c w)) =
           log w @ [Select_users, Insert_job \<lparr>payload_user_id = None, payload_status = ''pending''\<rparr>] \<and>
         (\<forall>x d rest. outcomes w = x # Success d # rest \<longrightarrow>
            fst (insertJob c w) = Inr [d\<lparr>status := ''pending''\<rparr>] \<and>
            jobs (db (snd (insertJob c w))) = jobs (db w) @ [d\<lparr>status := ''pending''\<rparr>] \<and>
            fst (insertJob_001 c w) = Inr [d\<lparr>status := ''pending''\<rparr>] \<and>
            jobs (db (snd (insertJob_001 c w))) = jobs (db w) @ [d\<lparr>status := ''pending''\<rparr>])"
proof -
  let ?p = "\<lparr>payload_user_id = None, payload_status = ''pending''\<rparr>"
  let ?w1 = "snd (respond Select_users w)"
  have run: "insertJob c w =
      (case insert_job c ?p ?w1 of (Inl e, w') \<Rightarrow> (Inr [], w') | (Inr rows, w') \<Rightarrow> (Inr rows, w'))"
    using insertJob_run [OF assms] by simp
  have run_001: "insertJob_001 c w =
      (case insert_job c ?p ?w1 of (Inl e, w') \<Rightarrow> (Inr [], w') | (Inr rows, w') \<Rightarrow> (Inr rows, w'))"
    using insertJob_001_run [OF assms] by simp
  have world: "snd (case insert_job c ?p ?w1 of
                      (Inl e, w') \<Rightarrow> (Inr [], w') | (Inr rows, w') \<Rightarrow> (Inr rows, w')) =
               snd (insert_job c ?p ?w1)"
    by (simp split: prod.splits sum.splits)
  have logged: "log (snd (insert_job c ?p ?w1)) = log w @ [Select_users, Insert_job ?p]"
    by (simp add: insert_job_log respond_log)
  have stored: "insert_job c ?p ?w1 =
      (Inr [d\<lparr>status := ''pending''\<rparr>],
       ?w1\<lparr>outcomes := rest, log := log ?w1 @ [Insert_job ?p],
           db := (db ?w1)\<lparr>jobs := jobs (db ?w1) @ [d\<lparr>status := ''pending''\<rparr>]\<rparr>\<rparr>)"
    if "outcomes w = x # Success d # rest" for x d rest
  proof -
    have "outcomes ?w1 = Success d # rest"
      using that by (simp add: respond_outcomes)
    from insert_job_accepted [OF this] show ?thesis
      by (simp add: new_row_def)
  qed
  show ?thesis
    using logged stored by (simp add: run run_001 world respond_db)
qed

text \<open>
  At the example store, a session whose credential admits no user row: the insert is
  sent and an eighth job, without a user, is stored.
\<close>

theorem insertJob_without_user_witness:
  "fst (insertJob (owner_client ''nobody'') (example_world JNull [accepted, accepted])) =
     Inr [\<lparr>job_id = ''j9'', user_id = None, status = ''pending'', created_at = 500,
           credits = None, is_deleted = False, original_video_url = None,
           transcription_id = None\<rparr>] \<and>
   log (snd (insertJob (owner_client ''nobody'') (example_world JNull [accepted, accepted]))) =
     [Select_users, Insert_job \<lparr>payload_user_id = None, payload_status = ''pending''\<rparr>] \<and>
   length (jobs (db (snd (insertJob (owner_client ''nobody'')
     (example_world JNull [accepted, accepted]))))) = 8"
proof -
  let ?c = "owner_client ''nobody''"
  let ?w = "example_world JNull [accepted, accepted]"
  have no_user: "fst (getUserDetails ?c ?w) = Inr None"
    by (simp add: getUserDetails_def io_defs store_defs example_defs)
  have answers: "outcomes ?w = accepted # Success column_defaults # []"
    by (simp add: example_world_def accepted_def)
  show ?thesis
    using insertJob_without_user [OF no_user] answers
    by (simp add: example_defs)
qed

section \<open>The other copy without its guards\<close>

text \<open>
  Property X1. In \<open>src/unnamed/part_001\<close> the listing is awaited without \<open>.throwOnError()\<close>: a failed
  listing is reported as \<open>success = true\<close> with \<open>data = null\<close>, and the free-tier branch
  of \<open>getCreditBalance\<close> then calls \<open>reduce\<close> on \<open>null\<close> and throws a \<open>TypeError\<close>.
\<close>

theorem getCreditBalance_001_listing_failure:
  assumes "getSubscription c w = (Inr None, w1)"
    and "outcomes w1 = Failure e # rest"
  shows "fst (getJobs_001 c w1) = Inr \<lparr>success = True, data = None, error = None\<rparr> \<and>
         fst (getCreditBalance_001 c w) = Inl (TypeError ''Cannot read properties of null'')"
proof -
  have listing: "getJobs_001 c w1 =
      (Inr \<lparr>success = True, data = None, error = None\<rparr>,
       w1\<lparr>outcomes := rest, log := log w1 @ [Select_jobs Every_job]\<rparr>)"
    using assms(2) by (simp add: getJobs_001_def io_defs select_jobs_def respond_def)
  then show ?thesis
    using assms(1)
    by (simp add: getCreditBalance_001_def getSubscription_001_eq bind_def throw_def Let_def)
qed

text \<open>At the example store the listing of \<open>u2\<close> fails: one copy throws, the other returns.\<close>

theorem getCreditBalance_001_listing_failure_witness:
  "fst (getCreditBalance_001 (owner_client ''u2'')
          (example_world JNull [accepted, Failure (PostgrestError ''timeout'')])) =
     Inl (TypeError ''Cannot read properties of null'') \<and>
   fst (getCreditBalance (owner_client ''u2'')
          (example_world JNull [accepted, Failure (PostgrestError ''timeout'')])) =
     Inr \<lparr>remaining = Num 7500, outOf = Num 7500\<rparr>"
proof -
  let ?c = "owner_client ''u2''"
  let ?w = "example_world JNull [accepted, Failure (PostgrestError ''timeout'')]"
  have lookup: "getSubscription ?c ?w =
      (Inr None,
       \<lparr>db = example_db JNull, outcomes = [Failure (PostgrestError ''timeout'')],
        log = [Select_subscriptions [''trialing'', ''active'']]\<rparr>)"
    by (simp add: getSubscription_def io_defs store_defs example_defs)
  have failing: "outcomes \<lparr>db = example_db JNull, outcomes = [Failure (PostgrestError ''timeout'')],
        log = [Select_subscriptions [''trialing'', ''active'']]\<rparr> =
      Failure (PostgrestError ''timeout'') # []"
    by simp
  have "fst (getCreditBalance ?c ?w) = Inr \<lparr>remaining = Num 7500, outOf = Num 7500\<rparr>"
    using listing_failure [OF lookup failing] by simp
  then show ?thesis
    using getCreditBalance_001_listing_failure [OF lookup failing] by simp
qed

text \<open>
  Property X2. The same copy reads \<open>Number(metadata?.credits)\<close> without a default: when the product
  metadata is missing or has no credits member, the allotment is \<open>Number(undefined)\<close>,
  and both fields of the result are \<open>NaN\<close>.
\<close>

theorem getCreditBalance_001_credits_absent:
  assumes "getSubscription c w = (Inr (Some sub), w1)"
    and "(case rawMetadata sub of None \<Rightarrow> None | Some m \<Rightarrow> property ''credits'' m) = None"
  shows "fst (getCreditBalance_001 c w) = Inr \<lparr>remaining = NaN, outOf = NaN\<rparr>"
proof -
  let ?q = "getJobsBetweenDates c (sub_user_id sub) (current_period_start sub)
           (current_period_end sub) w1"
  obtain jo where "fst ?q = Inr jo"
    using getJobsBetweenDates_total by blast
  then have "?q = (Inr jo, snd ?q)"
    by (simp add: prod_eq_iff)
  from subscribed_001 [OF assms(1) this] show ?thesis
    using assms(2) by simp
qed

text \<open>At the example store, with a metadata object that has no credits member.\<close>

theorem getCreditBalance_001_credits_absent_witness:
  "fst (getCreditBalance_001 (owner_client ''u1'')
          (example_world (JObject [(''index'', JString ''0'')]) [accepted, accepted])) =
     Inr \<lparr>remaining = NaN, outOf = NaN\<rparr>"
proof -
  let ?m = "JObject [(''index'', JString ''0'')]"
  let ?sub = "\<lparr>sub_user_id = ''u1'', sub_status = ''active'', price_id = Some ''price1'',
      current_period_start = 100, current_period_end = 200,
      prices_of = Some \<lparr>prices_id = ''price1'', product_id = Some ''prod1'',
         products_of = Some \<lparr>products_id = ''prod1'', metadata = ?m\<rparr>\<rparr>\<rparr>"
  have lookup: "getSubscription (owner_client ''u1'') (example_world ?m [accepted, accepted]) =
      (Inr (Some ?sub),
       \<lparr>db = example_db ?m, outcomes = [accepted],
        log = [Select_subscriptions [''trialing'', ''active'']]\<rparr>)"
    by (simp add: getSubscription_def io_defs store_defs example_defs)
  have no_member: "(case rawMetadata ?sub of None \<Rightarrow> None | Some m \<Rightarrow> property ''credits'' m) = None"
    by (simp add: rawMetadata_def)
  show ?thesis
    using getCreditBalance_001_credits_absent [OF lookup no_member] .
qed

end
